theory Spec2Isabelle
  imports Main "HOL-Library.Word" "HOL-Library.Sublist"
begin

unbundle bit_operations_syntax

section \<open>Shopify order webhook to WhatsApp relay (server.js)\<close>

text \<open>
  A shallow embedding of \<^verbatim>\<open>src/server.js\<close>. A JavaScript string is modelled by the
  byte sequence of its UTF-8 encoding (\<^typ>\<open>string\<close>), a \<^verbatim>\<open>Buffer\<close> by a list of
  8-bit words, an exception by the left summand of a sum type, the console and the
  network by the list of events a function emits. The Node.js library functions that
  the script calls (\<^verbatim>\<open>crypto\<close>, \<^verbatim>\<open>Buffer\<close>, \<^verbatim>\<open>JSON\<close>, \<^verbatim>\<open>Intl\<close>, the body
  parsers of Express 4) are modelled from their documented behaviour, each in its own
  subsection.
\<close>

subsection \<open>Buffers and base64\<close>

type_synonym byte = "8 word"

text \<open>Encoding a string as UTF-8 (\<^verbatim>\<open>.update(data, 'utf8')\<close>): the bytes themselves.\<close>

definition utf8 :: "string \<Rightarrow> byte list" where
  "utf8 s = map (\<lambda>c. of_nat (of_char c)) s"

definition b64_char :: "nat \<Rightarrow> char" where
  "b64_char i =
     (if i < 26 then char_of (i + 65)
      else if i < 52 then char_of (i + 71)
      else if i < 62 then char_of (i - 4)
      else if i = 62 then CHR ''+'' else CHR ''/'')"

text \<open>\<^verbatim>\<open>digest('base64')\<close>: the standard alphabet, padded with \<^verbatim>\<open>=\<close>.\<close>

fun b64_encode :: "byte list \<Rightarrow> string" where
  "b64_encode (a # b # c # bs) =
     [b64_char (unat a div 4), b64_char (unat a mod 4 * 16 + unat b div 16),
      b64_char (unat b mod 16 * 4 + unat c div 64), b64_char (unat c mod 64)] @ b64_encode bs"
| "b64_encode [a, b] =
     [b64_char (unat a div 4), b64_char (unat a mod 4 * 16 + unat b div 16),
      b64_char (unat b mod 16 * 4), CHR ''='']"
| "b64_encode [a] =
     [b64_char (unat a div 4), b64_char (unat a mod 4 * 16), CHR ''='', CHR ''='']"
| "b64_encode [] = []"

text \<open>
  \<^verbatim>\<open>Buffer.from(s, 'base64')\<close> is lenient: it accepts the standard and the URL-safe
  alphabet, skips every other character (whitespace included), stops at the first
  \<^verbatim>\<open>=\<close>, does not require padding and never throws on a string.
\<close>

definition unbase64 :: "char \<Rightarrow> nat option" where
  "unbase64 c =
     (let n = (of_char c :: nat) in
      if 65 \<le> n \<and> n \<le> 90 then Some (n - 65)
      else if 97 \<le> n \<and> n \<le> 122 then Some (n - 71)
      else if 48 \<le> n \<and> n \<le> 57 then Some (n + 4)
      else if c = CHR ''+'' \<or> c = CHR ''-'' then Some 62
      else if c = CHR ''/'' \<or> c = CHR ''_'' then Some 63
      else None)"

fun b64_sextets :: "string \<Rightarrow> nat list" where
  "b64_sextets [] = []"
| "b64_sextets (c # cs) =
     (if c = CHR ''='' then []
      else case unbase64 c of None \<Rightarrow> b64_sextets cs | Some i \<Rightarrow> i # b64_sextets cs)"

fun b64_bytes :: "nat list \<Rightarrow> byte list" where
  "b64_bytes (a # b # c # d # r) =
     [of_nat (a * 4 + b div 16), of_nat (b mod 16 * 16 + c div 4), of_nat (c mod 4 * 64 + d)]
     @ b64_bytes r"
| "b64_bytes [a, b, c] = [of_nat (a * 4 + b div 16), of_nat (b mod 16 * 16 + c div 4)]"
| "b64_bytes [a, b] = [of_nat (a * 4 + b div 16)]"
| "b64_bytes [a] = []"
| "b64_bytes [] = []"

datatype js_error =
    TypeError string
  | RangeError string
  | SyntaxError string
  | PayloadTooLargeError string

text \<open>The header comes from \<^verbatim>\<open>req.get\<close>: a string, or \<^verbatim>\<open>undefined\<close> (\<open>None\<close>), on which
  \<^verbatim>\<open>Buffer.from\<close> throws, with this message.\<close>

definition invalid_first_argument :: string where
  "invalid_first_argument =
     ''The first argument must be of type string or an instance of Buffer, ArrayBuffer, ''
     @ ''or Array or an Array-like Object. Received undefined''"

definition Buffer_from_base64 :: "string option \<Rightarrow> js_error + byte list" where
  "Buffer_from_base64 s =
     (case s of
        None \<Rightarrow> Inl (TypeError invalid_first_argument)
      | Some t \<Rightarrow> Inr (b64_bytes (b64_sextets t)))"

text \<open>\<^verbatim>\<open>crypto.timingSafeEqual\<close> throws on buffers of different length.\<close>

definition timingSafeEqual :: "byte list \<Rightarrow> byte list \<Rightarrow> js_error + bool" where
  "timingSafeEqual a b =
     (if length a \<noteq> length b
      then Inl (RangeError ''Input buffers must have the same byte length'')
      else Inr (a = b))"

subsection \<open>SHA-256 and HMAC (FIPS 180-4, RFC 2104)\<close>

text \<open>A 32-bit word is an \<^typ>\<open>int\<close> in \<open>[0, 2^32)\<close>; every addition is reduced
  with \<open>take_bit 32\<close>.\<close>

definition add32 :: "int \<Rightarrow> int \<Rightarrow> int" where
  "add32 x y = take_bit 32 (x + y)"

definition rotr :: "nat \<Rightarrow> int \<Rightarrow> int" where
  "rotr n x = drop_bit n x OR push_bit (32 - n) (take_bit n x)"

definition Ch :: "int \<Rightarrow> int \<Rightarrow> int \<Rightarrow> int" where
  "Ch x y z = (x AND y) XOR (take_bit 32 (NOT x) AND z)"

definition Maj :: "int \<Rightarrow> int \<Rightarrow> int \<Rightarrow> int" where
  "Maj x y z = (x AND y) XOR (x AND z) XOR (y AND z)"

definition Sigma0 :: "int \<Rightarrow> int" where
  "Sigma0 x = rotr 2 x XOR rotr 13 x XOR rotr 22 x"

definition Sigma1 :: "int \<Rightarrow> int" where
  "Sigma1 x = rotr 6 x XOR rotr 11 x XOR rotr 25 x"

definition sigma0 :: "int \<Rightarrow> int" where
  "sigma0 x = rotr 7 x XOR rotr 18 x XOR drop_bit 3 x"

definition sigma1 :: "int \<Rightarrow> int" where
  "sigma1 x = rotr 17 x XOR rotr 19 x XOR drop_bit 10 x"

definition K256 :: "int list" where
  "K256 = [
   1116352408, 1899447441, 3049323471, 3921009573, 961987163, 1508970993, 2453635748, 2870763221,
   3624381080, 310598401, 607225278, 1426881987, 1925078388, 2162078206, 2614888103, 3248222580,
   3835390401, 4022224774, 264347078, 604807628, 770255983, 1249150122, 1555081692, 1996064986,
   2554220882, 2821834349, 2952996808, 3210313671, 3336571891, 3584528711, 113926993, 338241895,
   666307205, 773529912, 1294757372, 1396182291, 1695183700, 1986661051, 2177026350, 2456956037,
   2730485921, 2820302411, 3259730800, 3345764771, 3516065817, 3600352804, 4094571909, 275423344,
   430227734, 506948616, 659060556, 883997877, 958139571, 1322822218, 1537002063, 1747873779,
   1955562222, 2024104815, 2227730452, 2361852424, 2428436474, 2756734187, 3204031479, 3329325298]"

definition H256 :: "int list" where
  "H256 = [1779033703, 3144134277, 1013904242, 2773480762,
           1359893119, 2600822924, 528734635, 1541459225]"

text \<open>The message schedule as a window of sixteen words, moved on by one word per round.\<close>

fun next_w :: "int list \<Rightarrow> int list" where
  "next_w [w0, w1, w2, w3, w4, w5, w6, w7, w8, w9, w10, w11, w12, w13, w14, w15] =
     [w1, w2, w3, w4, w5, w6, w7, w8, w9, w10, w11, w12, w13, w14, w15,
      add32 (add32 (add32 (sigma1 w14) w9) (sigma0 w1)) w0]"
| "next_w ws = ws"

fun sha_round :: "int list \<Rightarrow> int \<Rightarrow> int \<Rightarrow> int list" where
  "sha_round [a, b, c, d, e, f, g, h] k w =
     (let t1 = take_bit 32 (h + Sigma1 e + Ch e f g + k + w);
          t2 = add32 (Sigma0 a) (Maj a b c)
      in [add32 t1 t2, a, b, c, add32 d t1, e, f, g])"
| "sha_round s k w = s"

fun sha_rounds :: "int list \<Rightarrow> int list \<Rightarrow> int list \<Rightarrow> int list" where
  "sha_rounds [] ws s = s"
| "sha_rounds (k # ks) ws s = sha_rounds ks (next_w ws) (sha_round s k (hd ws))"

definition compress :: "int list \<Rightarrow> int list \<Rightarrow> int list" where
  "compress h ws = map2 add32 h (sha_rounds K256 ws h)"

fun be_words :: "byte list \<Rightarrow> int list" where
  "be_words (a # b # c # d # bs) =
     (push_bit 24 (uint a) + push_bit 16 (uint b) + push_bit 8 (uint c) + uint d) # be_words bs"
| "be_words bs = []"

definition be_bytes :: "int \<Rightarrow> byte list" where
  "be_bytes w = [word_of_int (drop_bit 24 w), word_of_int (drop_bit 16 w),
                 word_of_int (drop_bit 8 w), word_of_int w]"

definition sha_pad :: "byte list \<Rightarrow> byte list" where
  "sha_pad m =
     (let l = length m
      in m @ [0x80] @ replicate ((119 - l mod 64) mod 64) 0 @
         map (\<lambda>i. word_of_int (drop_bit (8 * i) (int (8 * l)))) [7, 6, 5, 4, 3, 2, 1, 0])"

fun sha_blocks :: "nat \<Rightarrow> int list \<Rightarrow> int list \<Rightarrow> int list" where
  "sha_blocks 0 h ws = h"
| "sha_blocks (Suc n) h ws = sha_blocks n (compress h (take 16 ws)) (drop 16 ws)"

definition sha256 :: "byte list \<Rightarrow> byte list" where
  "sha256 m =
     (let p = sha_pad m
      in concat (map be_bytes (sha_blocks (length p div 64) H256 (be_words p))))"

definition hmac_key :: "byte list \<Rightarrow> byte list" where
  "hmac_key k =
     (let k' = (if length k > 64 then sha256 k else k) in k' @ replicate (64 - length k') 0)"

definition hmac_sha256 :: "byte list \<Rightarrow> byte list \<Rightarrow> byte list" where
  "hmac_sha256 k m =
     (let k0 = hmac_key k
      in sha256 (map (\<lambda>b. b XOR 0x5c) k0 @ sha256 (map (\<lambda>b. b XOR 0x36) k0 @ m)))"

subsection \<open>JavaScript values\<close>

text \<open>
  A value as \<^verbatim>\<open>JSON.parse\<close> can produce it, and \<^verbatim>\<open>undefined\<close>. \<open>JNum n\<close> is the
  integer-valued double \<open>n\<close> with \<open>\<bar>n\<bar> \<le> 2^53\<close>; numbers with a fraction are outside
  the embedding. An object is the list of its own properties; of two entries with one
  key the first is the property.
\<close>

datatype jsval =
    JUndefined
  | JNull
  | JBool bool
  | JNum int
  | JStr string
  | JArr "jsval list"
  | JObj "(string \<times> jsval) list"

text \<open>Sequencing of steps that may throw: the first exception is the result.\<close>

definition bind :: "js_error + 'a \<Rightarrow> ('a \<Rightarrow> js_error + 'b) \<Rightarrow> js_error + 'b" where
  "bind step rest = (case step of Inr v \<Rightarrow> rest v | Inl thrown \<Rightarrow> Inl thrown)"

definition message_of :: "js_error \<Rightarrow> string" where
  "message_of e =
     (case e of TypeError m \<Rightarrow> m | RangeError m \<Rightarrow> m | SyntaxError m \<Rightarrow> m
      | PayloadTooLargeError m \<Rightarrow> m)"

definition nl :: string where
  "nl = [CHR 0x0A]"

definition quote :: string where
  "quote = [CHR 0x27]"

fun truthy :: "jsval \<Rightarrow> bool" where
  "truthy JUndefined = False"
| "truthy JNull = False"
| "truthy (JBool b) = b"
| "truthy (JNum n) = (n \<noteq> 0)"
| "truthy (JStr s) = (s \<noteq> [])"
| "truthy (JArr xs) = True"
| "truthy (JObj kvs) = True"

text \<open>\<^verbatim>\<open>a || b\<close> where \<open>a\<close> is a property read.\<close>

definition or_else :: "js_error + jsval \<Rightarrow> jsval \<Rightarrow> js_error + jsval" where
  "or_else a b = bind a (\<lambda>v. Inr (if truthy v then v else b))"

text \<open>The \<^verbatim>\<open>length\<close> of a string counts UTF-16 code units: one for every character of
  the basic plane, two for a character that UTF-8 encodes in four bytes.\<close>

definition utf16_length :: "string \<Rightarrow> int" where
  "utf16_length s =
     int (length (filter (\<lambda>c. (of_char c :: nat) < 128 \<or> 192 \<le> (of_char c :: nat)) s))
     + int (length (filter (\<lambda>c. 240 \<le> (of_char c :: nat)) s))"

text \<open>
  The property read \<^verbatim>\<open>v.p\<close>, for the data properties that the script reads. It throws
  on \<^verbatim>\<open>undefined\<close> and \<^verbatim>\<open>null\<close>; a primitive has no such property.
\<close>

fun js_get :: "jsval \<Rightarrow> string \<Rightarrow> js_error + jsval" where
  "js_get JUndefined p =
     Inl (TypeError (''Cannot read properties of undefined (reading '' @ quote @ p @ quote @ '')''))"
| "js_get JNull p =
     Inl (TypeError (''Cannot read properties of null (reading '' @ quote @ p @ quote @ '')''))"
| "js_get (JObj kvs) p = Inr (case map_of kvs p of None \<Rightarrow> JUndefined | Some v \<Rightarrow> v)"
| "js_get (JArr xs) p = Inr (if p = ''length'' then JNum (int (length xs)) else JUndefined)"
| "js_get (JStr s) p = Inr (if p = ''length'' then JNum (utf16_length s) else JUndefined)"
| "js_get (JBool b) p = Inr JUndefined"
| "js_get (JNum n) p = Inr JUndefined"

text \<open>Optional chaining \<^verbatim>\<open>v?.p\<close>.\<close>

definition js_get_opt :: "js_error + jsval \<Rightarrow> string \<Rightarrow> js_error + jsval" where
  "js_get_opt a p = bind a (\<lambda>v. if v = JUndefined \<or> v = JNull then Inr JUndefined else js_get v p)"

function show_pos :: "int \<Rightarrow> string" where
  "show_pos n =
     (if n < 10 then [char_of (48 + n)] else show_pos (n div 10) @ [char_of (48 + n mod 10)])"
  by pat_completeness auto
termination
  by (relation "measure nat") auto

definition show_int :: "int \<Rightarrow> string" where
  "show_int n = (if n < 0 then CHR ''-'' # show_pos (- n) else show_pos n)"

fun join :: "string \<Rightarrow> string list \<Rightarrow> string" where
  "join sep [] = []"
| "join sep [s] = s"
| "join sep (s # t # ss) = s @ sep @ join sep (t # ss)"

text \<open>
  \<^verbatim>\<open>ToString\<close>, as a template literal applies it. An array is joined with commas, its
  \<^verbatim>\<open>null\<close> elements empty. An object is \<^verbatim>\<open>[object Object]\<close> unless it has an own
  property \<^verbatim>\<open>toString\<close>: parsed from JSON that property is no function, and neither
  it nor \<^verbatim>\<open>valueOf\<close> yields a primitive.
\<close>

fun js_toString :: "jsval \<Rightarrow> js_error + string"
  and js_elements :: "jsval list \<Rightarrow> js_error + string list" where
  "js_toString JUndefined = Inr ''undefined''"
| "js_toString JNull = Inr ''null''"
| "js_toString (JBool b) = Inr (if b then ''true'' else ''false'')"
| "js_toString (JNum n) = Inr (show_int n)"
| "js_toString (JStr s) = Inr s"
| "js_toString (JArr xs) = bind (js_elements xs) (\<lambda>ss. Inr (join '','' ss))"
| "js_toString (JObj kvs) =
     (case map_of kvs ''toString'' of
        None \<Rightarrow> Inr ''[object Object]''
      | Some f \<Rightarrow> Inl (TypeError ''Cannot convert object to primitive value''))"
| "js_elements [] = Inr []"
| "js_elements (x # xs) =
     bind (if x = JUndefined \<or> x = JNull then Inr [] else js_toString x)
       (\<lambda>s. bind (js_elements xs) (\<lambda>ss. Inr (s # ss)))"

text \<open>A template literal: the substitutions are evaluated and converted from left to
  right, and the first exception ends the evaluation.\<close>

datatype part = Lit string | Sub "js_error + jsval"

fun template :: "part list \<Rightarrow> js_error + string" where
  "template [] = Inr []"
| "template (Lit s # ps) = bind (template ps) (\<lambda>r. Inr (s @ r))"
| "template (Sub a # ps) =
     bind a (\<lambda>v. bind (js_toString v) (\<lambda>s. bind (template ps) (\<lambda>r. Inr (s @ r))))"

text \<open>\<^verbatim>\<open>String.prototype.trim\<close> removes white space and line terminators, here in
  their UTF-8 encoding, from both ends.\<close>

definition js_whitespace :: "string list" where
  "js_whitespace =
     [[CHR 0x09], [CHR 0x0A], [CHR 0x0B], [CHR 0x0C], [CHR 0x0D], [CHR 0x20],
      [CHR 0xC2, CHR 0xA0], [CHR 0xE1, CHR 0x9A, CHR 0x80],
      [CHR 0xE2, CHR 0x80, CHR 0x80], [CHR 0xE2, CHR 0x80, CHR 0x81],
      [CHR 0xE2, CHR 0x80, CHR 0x82], [CHR 0xE2, CHR 0x80, CHR 0x83],
      [CHR 0xE2, CHR 0x80, CHR 0x84], [CHR 0xE2, CHR 0x80, CHR 0x85],
      [CHR 0xE2, CHR 0x80, CHR 0x86], [CHR 0xE2, CHR 0x80, CHR 0x87],
      [CHR 0xE2, CHR 0x80, CHR 0x88], [CHR 0xE2, CHR 0x80, CHR 0x89],
      [CHR 0xE2, CHR 0x80, CHR 0x8A], [CHR 0xE2, CHR 0x80, CHR 0xA8],
      [CHR 0xE2, CHR 0x80, CHR 0xA9], [CHR 0xE2, CHR 0x80, CHR 0xAF],
      [CHR 0xE2, CHR 0x81, CHR 0x9F], [CHR 0xE3, CHR 0x80, CHR 0x80],
      [CHR 0xEF, CHR 0xBB, CHR 0xBF]]"

fun strip_any :: "string list \<Rightarrow> string \<Rightarrow> string" where
  "strip_any ws [] = []"
| "strip_any ws (c # cs) =
     (case find (\<lambda>w. prefix w (c # cs)) ws of
        None \<Rightarrow> c # cs
      | Some w \<Rightarrow> strip_any ws (drop (length w - 1) cs))"

definition trim :: "string \<Rightarrow> string" where
  "trim s = rev (strip_any (map rev js_whitespace) (rev (strip_any js_whitespace s)))"

subsection \<open>Configuration, runtime and events\<close>

text \<open>The four constants read from \<^verbatim>\<open>process.env\<close> at start-up. A variable that is not
  set is \<open>None\<close>; \<^verbatim>\<open>!X\<close> holds for an unset variable and for the empty string.\<close>

record config =
  WHATSAPP_TOKEN :: "string option"
  PHONE_NUMBER_ID :: "string option"
  COMPANY_WHATSAPP :: string
  SHOPIFY_WEBHOOK_SECRET :: "string option"

definition env_truthy :: "string option \<Rightarrow> bool" where
  "env_truthy v = (case v of None \<Rightarrow> False | Some s \<Rightarrow> s \<noteq> [])"

text \<open>The request that \<^verbatim>\<open>axios.post\<close> sends.\<close>

record http_post =
  url :: string
  messaging_product :: string
  to :: string
  text_body :: string
  authorization :: string
  timeout_ms :: nat

text \<open>
  What the script takes from its surroundings: the outcome of the HTTP call (the
  response data, or on the left \<^verbatim>\<open>error.response?.data || error.message\<close>), the clock
  (\<open>Date_now rt k\<close> is the reading of the \<open>k\<close>-th call), the engine's \<^verbatim>\<open>Date.parse\<close>
  (\<open>None\<close> for \<^verbatim>\<open>NaN\<close>) and \<^verbatim>\<open>JSON.parse\<close>, and the one point in which the locale
  data behind \<^verbatim>\<open>toLocaleString('en-IN', ...)\<close> differ between the releases of the
  engine: the space that sets off \<^verbatim>\<open>am\<close> and \<^verbatim>\<open>pm\<close> from the time is U+0020 or, with
  the English locale data from CLDR 42 on, the narrow no-break space U+202F.
\<close>

datatype space = Space | Narrow_no_break_space

record runtime =
  axios_post :: "http_post \<Rightarrow> jsval + jsval"
  Date_now :: "nat \<Rightarrow> int"
  Date_parse :: "string \<Rightarrow> int option"
  JSON_parse :: "string \<Rightarrow> js_error + jsval"
  day_period_space :: space

text \<open>The result object of \<^verbatim>\<open>sendWhatsAppMessage\<close>: \<^verbatim>\<open>{success: false, reason}\<close>,
  \<^verbatim>\<open>{success: true, data}\<close> or \<^verbatim>\<open>{success: false, error}\<close>.\<close>

datatype send_result =
    Skipped string
  | Sent jsval
  | SendFailed jsval

fun success :: "send_result \<Rightarrow> bool" where
  "success (Skipped reason) = False"
| "success (Sent d) = True"
| "success (SendFailed e) = False"

text \<open>What a run writes to the console, and the one call it makes to the network.\<close>

datatype event =
    Log_webhook_received
  | Log_order_received jsval jsval string jsval
  | Log_no_secret
  | Log_verification bool
  | Log_verification_error js_error
  | Log_verification_failed
  | Log_sending
  | Log_no_credentials string
  | Http_post http_post
  | Log_sent jsval
  | Log_send_error jsval
  | Log_processed jsval int bool
  | Log_processing_error js_error int
  | Log_unhandled_error js_error

subsection \<open>verifyShopifyWebhook (lines 24--47)\<close>

text \<open>The body of the \<^verbatim>\<open>try\<close> block. \<^verbatim>\<open>update\<close> throws when \<open>data\<close> is no string
  (\<^verbatim>\<open>undefined\<close>, when \<^verbatim>\<open>JSON.stringify\<close> has returned it).\<close>

definition invalid_data_argument :: string where
  "invalid_data_argument =
     ''The \"data\" argument must be of type string or an instance of Buffer, TypedArray, ''
     @ ''or DataView. Received undefined''"

definition calculatedHmac :: "string \<Rightarrow> string option \<Rightarrow> js_error + string" where
  "calculatedHmac secret data =
     (case data of
        None \<Rightarrow> Inl (TypeError invalid_data_argument)
      | Some d \<Rightarrow> Inr (b64_encode (hmac_sha256 (utf8 secret) (utf8 d))))"

definition isValid :: "string \<Rightarrow> string option \<Rightarrow> string option \<Rightarrow> js_error + bool" where
  "isValid secret data hmacHeader =
     bind (calculatedHmac secret data) (\<lambda>c.
     bind (Buffer_from_base64 (Some c)) (\<lambda>a.
     bind (Buffer_from_base64 hmacHeader) (\<lambda>b.
     timingSafeEqual a b)))"

definition verifyShopifyWebhook ::
  "config \<Rightarrow> string option \<Rightarrow> string option \<Rightarrow> event list \<times> bool" where
  "verifyShopifyWebhook cfg data hmacHeader =
     (case SHOPIFY_WEBHOOK_SECRET cfg of
        None \<Rightarrow> ([Log_no_secret], True)
      | Some secret \<Rightarrow>
          if secret = [] then ([Log_no_secret], True)
          else (case isValid secret data hmacHeader of
                  Inr v \<Rightarrow> ([Log_verification v], v)
                | Inl e \<Rightarrow> ([Log_verification_error e], False)))"

subsection \<open>sendWhatsAppMessage (lines 50--85)\<close>

definition sendWhatsAppMessage :: "config \<Rightarrow> runtime \<Rightarrow> string \<Rightarrow> event list \<times> send_result" where
  "sendWhatsAppMessage cfg rt message =
     (if \<not> env_truthy (WHATSAPP_TOKEN cfg) \<or> \<not> env_truthy (PHONE_NUMBER_ID cfg)
      then ([Log_no_credentials message], Skipped ''No WhatsApp credentials'')
      else
        let rq = \<lparr>url = ''https://graph.facebook.com/v18.0/''
                       @ (case PHONE_NUMBER_ID cfg of None \<Rightarrow> [] | Some i \<Rightarrow> i) @ ''/messages'',
                  messaging_product = ''whatsapp'',
                  to = COMPANY_WHATSAPP cfg,
                  text_body = message,
                  authorization = ''Bearer ''
                       @ (case WHATSAPP_TOKEN cfg of None \<Rightarrow> [] | Some t \<Rightarrow> t),
                  timeout_ms = 10000\<rparr>
        in (case axios_post rt rq of
              Inr d \<Rightarrow> ([Http_post rq, Log_sent d], Sent d)
            | Inl e \<Rightarrow> ([Http_post rq, Log_send_error e], SendFailed e)))"

subsection \<open>JSON\<close>

definition hex_digit :: "int \<Rightarrow> char" where
  "hex_digit n = (if n < 10 then char_of (48 + n) else char_of (87 + n))"

definition json_escape :: "char \<Rightarrow> string" where
  "json_escape c =
     (if c = CHR 0x22 then [CHR 0x5C, CHR 0x22]
      else if c = CHR 0x5C then [CHR 0x5C, CHR 0x5C]
      else if c = CHR 0x08 then [CHR 0x5C, CHR ''b'']
      else if c = CHR 0x0C then [CHR 0x5C, CHR ''f'']
      else if c = CHR 0x0A then [CHR 0x5C, CHR ''n'']
      else if c = CHR 0x0D then [CHR 0x5C, CHR ''r'']
      else if c = CHR 0x09 then [CHR 0x5C, CHR ''t'']
      else if (of_char c :: int) < 32
      then [CHR 0x5C, CHR ''u'', CHR ''0'', CHR ''0'', hex_digit (of_char c div 16),
            hex_digit (of_char c mod 16)]
      else [c])"

definition json_quote :: "string \<Rightarrow> string" where
  "json_quote s = [CHR 0x22] @ concat (map json_escape s) @ [CHR 0x22]"

definition is_digit :: "char \<Rightarrow> bool" where
  "is_digit c = (48 \<le> (of_char c :: int) \<and> (of_char c :: int) \<le> 57)"

definition digits_value :: "string \<Rightarrow> int" where
  "digits_value ds = foldl (\<lambda>a c. 10 * a + (of_char c - 48)) 0 ds"

text \<open>
  The own properties of an object in the order in which the engine enumerates them:
  the array indices (canonical numeric strings below \<open>2^32 - 1\<close>) in ascending order,
  then the other keys in the order of their creation.
\<close>

definition is_array_index :: "string \<Rightarrow> bool" where
  "is_array_index k =
     (case k of
        [] \<Rightarrow> False
      | c # cs \<Rightarrow> list_all is_digit k \<and> (cs = [] \<or> c \<noteq> CHR ''0'') \<and> length k \<le> 10
                 \<and> digits_value k < 4294967295)"

fun first_of_key :: "(string \<times> 'a) list \<Rightarrow> (string \<times> 'a) list" where
  "first_of_key [] = []"
| "first_of_key (p # ps) = p # first_of_key (filter (\<lambda>q. fst q \<noteq> fst p) ps)"

definition own_properties :: "(string \<times> 'a) list \<Rightarrow> (string \<times> 'a) list" where
  "own_properties kvs =
     (let ps = first_of_key kvs
      in sort_key (\<lambda>p. digits_value (fst p)) (filter (\<lambda>p. is_array_index (fst p)) ps)
         @ filter (\<lambda>p. \<not> is_array_index (fst p)) ps)"

text \<open>
  \<^verbatim>\<open>JSON.stringify\<close>: no white space, \<^verbatim>\<open>null\<close> for an \<^verbatim>\<open>undefined\<close> element of an
  array, no member for an \<^verbatim>\<open>undefined\<close> property, and \<^verbatim>\<open>undefined\<close> (\<open>None\<close>) for
  \<^verbatim>\<open>undefined\<close> itself.
\<close>

fun JSON_stringify :: "jsval \<Rightarrow> string option"
  and stringify_elements :: "jsval list \<Rightarrow> string list"
  and stringify_properties :: "(string \<times> jsval) list \<Rightarrow> (string \<times> string option) list" where
  "JSON_stringify JUndefined = None"
| "JSON_stringify JNull = Some ''null''"
| "JSON_stringify (JBool b) = Some (if b then ''true'' else ''false'')"
| "JSON_stringify (JNum n) = Some (show_int n)"
| "JSON_stringify (JStr s) = Some (json_quote s)"
| "JSON_stringify (JArr xs) = Some (''['' @ join '','' (stringify_elements xs) @ '']'')"
| "JSON_stringify (JObj kvs) =
     Some (''{'' @ join '',''
        (concat (map (\<lambda>p. case snd p of None \<Rightarrow> [] | Some t \<Rightarrow> [json_quote (fst p) @ '':'' @ t])
                     (own_properties (stringify_properties kvs)))) @ ''}'')"
| "stringify_elements [] = []"
| "stringify_elements (x # xs) =
     (case JSON_stringify x of None \<Rightarrow> ''null'' | Some t \<Rightarrow> t) # stringify_elements xs"
| "stringify_properties [] = []"
| "stringify_properties (p # ps) = (fst p, JSON_stringify (snd p)) # stringify_properties ps"

text \<open>
  A parser for JSON texts, for the runtime of the examples. It covers the grammar of
  RFC 8259 except numbers with a fraction or an exponent, integers beyond \<open>2^53\<close> and
  escapes of lone surrogates, on which it answers \<open>Unmodelled\<close>.
\<close>

datatype 'a parsed = Parsed 'a string | Malformed | Unmodelled

definition is_ws :: "char \<Rightarrow> bool" where
  "is_ws c = (c = CHR 0x20 \<or> c = CHR 0x09 \<or> c = CHR 0x0A \<or> c = CHR 0x0D)"

definition skip_ws :: "string \<Rightarrow> string" where
  "skip_ws s = dropWhile is_ws s"

definition hex_value :: "char \<Rightarrow> int option" where
  "hex_value c =
     (let n = (of_char c :: int) in
      if 48 \<le> n \<and> n \<le> 57 then Some (n - 48)
      else if 97 \<le> n \<and> n \<le> 102 then Some (n - 87)
      else if 65 \<le> n \<and> n \<le> 70 then Some (n - 55)
      else None)"

fun hex4 :: "string \<Rightarrow> int option" where
  "hex4 (a # b # c # d # r) =
     (case (hex_value a, hex_value b, hex_value c, hex_value d) of
        (Some x, Some y, Some z, Some w) \<Rightarrow> Some (((x * 16 + y) * 16 + z) * 16 + w)
      | _ \<Rightarrow> None)"
| "hex4 s = None"

definition utf8_encode :: "int \<Rightarrow> string" where
  "utf8_encode cp =
     (if cp < 128 then [char_of cp]
      else if cp < 2048 then [char_of (192 + cp div 64), char_of (128 + cp mod 64)]
      else if cp < 65536
      then [char_of (224 + cp div 4096), char_of (128 + cp div 64 mod 64), char_of (128 + cp mod 64)]
      else [char_of (240 + cp div 262144), char_of (128 + cp div 4096 mod 64),
            char_of (128 + cp div 64 mod 64), char_of (128 + cp mod 64)])"

definition simple_escape :: "char \<Rightarrow> char option" where
  "simple_escape e =
     (if e = CHR 0x22 \<or> e = CHR 0x5C \<or> e = CHR ''/'' then Some e
      else if e = CHR ''b'' then Some (CHR 0x08)
      else if e = CHR ''f'' then Some (CHR 0x0C)
      else if e = CHR ''n'' then Some (CHR 0x0A)
      else if e = CHR ''r'' then Some (CHR 0x0D)
      else if e = CHR ''t'' then Some (CHR 0x09)
      else None)"

definition and_more :: "string \<Rightarrow> string parsed \<Rightarrow> string parsed" where
  "and_more pre r = (case r of Parsed t rest \<Rightarrow> Parsed (pre @ t) rest | _ \<Rightarrow> r)"

text \<open>The characters of a string, after its opening quotation mark.\<close>

fun parse_chars :: "string \<Rightarrow> string parsed" where
  "parse_chars [] = Malformed"
| "parse_chars (c # cs) =
     (if c = CHR 0x22 then Parsed [] cs
      else if c = CHR 0x5C then
        (case cs of
           [] \<Rightarrow> Malformed
         | e # r \<Rightarrow>
             if e = CHR ''u'' then
               (case hex4 r of
                  None \<Rightarrow> Malformed
                | Some hi \<Rightarrow>
                    if hi < 55296 \<or> 57344 \<le> hi then and_more (utf8_encode hi) (parse_chars (drop 4 r))
                    else if 56320 \<le> hi then Unmodelled
                    else if take 2 (drop 4 r) = [CHR 0x5C, CHR ''u''] then
                      (case hex4 (drop 6 r) of
                         None \<Rightarrow> Malformed
                       | Some lo \<Rightarrow>
                           if 56320 \<le> lo \<and> lo < 57344
                           then and_more (utf8_encode (65536 + (hi - 55296) * 1024 + (lo - 56320)))
                                  (parse_chars (drop 10 r))
                           else Unmodelled)
                    else Unmodelled)
             else (case simple_escape e of
                     None \<Rightarrow> Malformed
                   | Some x \<Rightarrow> and_more [x] (parse_chars r)))
      else if (of_char c :: int) < 32 then Malformed
      else and_more [c] (parse_chars cs))"

definition parse_digits :: "bool \<Rightarrow> string \<Rightarrow> jsval parsed" where
  "parse_digits negative s =
     (let ds = takeWhile is_digit s; rest = dropWhile is_digit s
      in if ds = [] then Malformed
         else if 1 < length ds \<and> take 1 ds = ''0'' then Malformed
         else if take 1 rest = ''.'' \<or> take 1 rest = ''e'' \<or> take 1 rest = ''E'' then Unmodelled
         else if 9007199254740992 < digits_value ds then Unmodelled
         else Parsed (JNum (if negative then - digits_value ds else digits_value ds)) rest)"

definition parse_number :: "string \<Rightarrow> jsval parsed" where
  "parse_number s = (if take 1 s = ''-'' then parse_digits True (drop 1 s) else parse_digits False s)"

text \<open>An object keeps a key at the place of its first occurrence, with its last value.\<close>

fun obj_put :: "(string \<times> jsval) list \<Rightarrow> string \<Rightarrow> jsval \<Rightarrow> (string \<times> jsval) list" where
  "obj_put [] k v = [(k, v)]"
| "obj_put (p # ps) k v = (if fst p = k then (k, v) # ps else p # obj_put ps k v)"

text \<open>A value, the elements of an array after the first bracket, the members of an
  object after the first brace. The first argument bounds the number of calls.\<close>

fun parse_value :: "nat \<Rightarrow> string \<Rightarrow> jsval parsed"
  and parse_elements :: "nat \<Rightarrow> jsval list \<Rightarrow> string \<Rightarrow> jsval parsed"
  and parse_members :: "nat \<Rightarrow> (string \<times> jsval) list \<Rightarrow> string \<Rightarrow> jsval parsed" where
  "parse_value 0 s = Unmodelled"
| "parse_value (Suc n) s =
     (case s of
        [] \<Rightarrow> Malformed
      | c # cs \<Rightarrow>
          if c = CHR ''{'' then
            (if take 1 (skip_ws cs) = ''}'' then Parsed (JObj []) (drop 1 (skip_ws cs))
             else parse_members n [] (skip_ws cs))
          else if c = CHR ''['' then
            (if take 1 (skip_ws cs) = '']'' then Parsed (JArr []) (drop 1 (skip_ws cs))
             else parse_elements n [] (skip_ws cs))
          else if c = CHR 0x22 then
            (case parse_chars cs of
               Parsed t r \<Rightarrow> Parsed (JStr t) r
             | Malformed \<Rightarrow> Malformed
             | Unmodelled \<Rightarrow> Unmodelled)
          else if prefix ''true'' s then Parsed (JBool True) (drop 4 s)
          else if prefix ''false'' s then Parsed (JBool False) (drop 5 s)
          else if prefix ''null'' s then Parsed JNull (drop 4 s)
          else parse_number s)"
| "parse_elements 0 acc s = Unmodelled"
| "parse_elements (Suc n) acc s =
     (case parse_value n s of
        Parsed v r \<Rightarrow>
          if take 1 (skip_ws r) = '','' then parse_elements n (acc @ [v]) (skip_ws (drop 1 (skip_ws r)))
          else if take 1 (skip_ws r) = '']'' then Parsed (JArr (acc @ [v])) (drop 1 (skip_ws r))
          else Malformed
      | Malformed \<Rightarrow> Malformed
      | Unmodelled \<Rightarrow> Unmodelled)"
| "parse_members 0 acc s = Unmodelled"
| "parse_members (Suc n) acc s =
     (if take 1 s = [CHR 0x22] then
        (case parse_chars (drop 1 s) of
           Parsed k r \<Rightarrow>
             if take 1 (skip_ws r) = '':'' then
               (case parse_value n (skip_ws (drop 1 (skip_ws r))) of
                  Parsed v r' \<Rightarrow>
                    if take 1 (skip_ws r') = '','' then
                      parse_members n (obj_put acc k v) (skip_ws (drop 1 (skip_ws r')))
                    else if take 1 (skip_ws r') = ''}'' then
                      Parsed (JObj (obj_put acc k v)) (drop 1 (skip_ws r'))
                    else Malformed
                | Malformed \<Rightarrow> Malformed
                | Unmodelled \<Rightarrow> Unmodelled)
             else Malformed
         | Malformed \<Rightarrow> Malformed
         | Unmodelled \<Rightarrow> Unmodelled)
      else Malformed)"

definition json_parse :: "string \<Rightarrow> jsval parsed" where
  "json_parse s =
     (case parse_value (2 * length s + 2) (skip_ws s) of
        Parsed v r \<Rightarrow> if skip_ws r = [] then Parsed v [] else Malformed
      | Malformed \<Rightarrow> Malformed
      | Unmodelled \<Rightarrow> Unmodelled)"

subsection \<open>The message (lines 165--210)\<close>

definition customerName :: "jsval \<Rightarrow> js_error + string" where
  "customerName order =
     bind (js_get order ''customer'') (\<lambda>customer.
       if truthy customer
       then bind (template [Sub (or_else (js_get customer ''first_name'') (JStr [])), Lit '' '',
                            Sub (or_else (js_get customer ''last_name'') (JStr []))])
              (\<lambda>s. Inr (trim s))
       else Inr ''Guest Customer'')"

definition bullet :: string where
  "bullet = [CHR 0xE2, CHR 0x80, CHR 0xA2]"

definition render_item :: "jsval \<Rightarrow> jsval \<Rightarrow> js_error + string" where
  "render_item order item =
     template [Lit bullet, Lit '' '', Sub (js_get item ''title''), Lit '' (Qty: '',
               Sub (js_get item ''quantity''), Lit '') - '', Sub (js_get order ''currency''),
               Lit '' '', Sub (js_get item ''price'')]"

text \<open>\<^verbatim>\<open>Array.prototype.map\<close> with a callback that may throw.\<close>

fun map_items :: "(jsval \<Rightarrow> js_error + string) \<Rightarrow> jsval list \<Rightarrow> js_error + string list" where
  "map_items f [] = Inr []"
| "map_items f (x # xs) = bind (f x) (\<lambda>s. bind (map_items f xs) (\<lambda>ss. Inr (s # ss)))"

text \<open>
  \<^verbatim>\<open>order.line_items.slice(0, 5).map(...).join('\n')\<close>. Only an array has both
  methods: a string has \<^verbatim>\<open>slice\<close> and no \<^verbatim>\<open>map\<close>, any other value has neither, and
  reading \<^verbatim>\<open>slice\<close> from \<^verbatim>\<open>undefined\<close> or \<^verbatim>\<open>null\<close> throws.
\<close>

definition itemsList :: "jsval \<Rightarrow> js_error + string" where
  "itemsList order =
     bind (js_get order ''line_items'') (\<lambda>line_items.
       case line_items of
         JArr xs \<Rightarrow> bind (map_items (render_item order) (take 5 xs)) (\<lambda>ls. Inr (join nl ls))
       | JStr s \<Rightarrow> Inl (TypeError ''order.line_items.slice(...).map is not a function'')
       | JUndefined \<Rightarrow> bind (js_get line_items ''slice'') (\<lambda>f. Inr [])
       | JNull \<Rightarrow> bind (js_get line_items ''slice'') (\<lambda>f. Inr [])
       | _ \<Rightarrow> Inl (TypeError ''order.line_items.slice is not a function''))"

definition shippingAddress :: "jsval \<Rightarrow> js_error + string" where
  "shippingAddress order =
     bind (js_get order ''shipping_address'') (\<lambda>a.
       if truthy a
       then template [Sub (or_else (js_get a ''address1'') (JStr [])), Lit nl,
                      Sub (or_else (js_get a ''city'') (JStr [])), Lit '', '',
                      Sub (or_else (js_get a ''province'') (JStr [])), Lit '' '',
                      Sub (or_else (js_get a ''zip'') (JStr [])), Lit nl,
                      Sub (or_else (js_get a ''country'') (JStr []))]
       else Inr ''No shipping address provided'')"

text \<open>
  \<^verbatim>\<open>new Date(v)\<close>: the time value in milliseconds since the epoch, \<open>None\<close> for an
  invalid date. A string is parsed, an array or an object is converted to a string
  first, every other value to a number.
\<close>

definition TimeClip :: "int \<Rightarrow> int option" where
  "TimeClip t = (if \<bar>t\<bar> \<le> 8640000000000000 then Some t else None)"

definition new_Date :: "runtime \<Rightarrow> jsval \<Rightarrow> js_error + int option" where
  "new_Date rt v =
     (case v of
        JUndefined \<Rightarrow> Inr None
      | JNull \<Rightarrow> Inr (Some 0)
      | JBool b \<Rightarrow> Inr (Some (if b then 1 else 0))
      | JNum n \<Rightarrow> Inr (TimeClip n)
      | JStr s \<Rightarrow> Inr (Option.bind (Date_parse rt s) TimeClip)
      | _ \<Rightarrow> bind (js_toString v) (\<lambda>s. Inr (Option.bind (Date_parse rt s) TimeClip)))"

text \<open>
  The date of a day number (days since 1 January 1970) in the Gregorian calendar: the
  years are counted off first, then the months of the year that is left. The first
  argument of \<open>year_of\<close> bounds the number of years counted.
\<close>

definition is_leap :: "int \<Rightarrow> bool" where
  "is_leap y = (y mod 4 = 0 \<and> (y mod 100 \<noteq> 0 \<or> y mod 400 = 0))"

definition year_length :: "int \<Rightarrow> int" where
  "year_length y = (if is_leap y then 366 else 365)"

definition month_lengths :: "int \<Rightarrow> int list" where
  "month_lengths y = [31, if is_leap y then 29 else 28, 31, 30, 31, 30, 31, 31, 30, 31, 30, 31]"

fun year_of :: "nat \<Rightarrow> int \<Rightarrow> int \<Rightarrow> int \<times> int" where
  "year_of 0 y d = (y, d)"
| "year_of (Suc k) y d =
     (if d < 0 then year_of k (y - 1) (d + year_length (y - 1))
      else if d < year_length y then (y, d)
      else year_of k (y + 1) (d - year_length y))"

fun month_of :: "int list \<Rightarrow> int \<Rightarrow> int \<Rightarrow> int \<times> int" where
  "month_of [] m d = (m, d + 1)"
| "month_of (l # ls) m d = (if d < l then (m, d + 1) else month_of ls (m + 1) (d - l))"

definition civil_from_days :: "int \<Rightarrow> int \<times> int \<times> int" where
  "civil_from_days n =
     (let (y, doy) = year_of (nat (\<bar>n\<bar> div 365) + 2) 1970 n;
          (m, d) = month_of (month_lengths y) 1 doy
      in (y, m, d))"

text \<open>
  \<^verbatim>\<open>timeZone: 'Asia/Kolkata'\<close>: the offset of the zone from UTC in milliseconds at an
  instant, as the time zone database has it. The zone is at +05:30 since 15 October
  1945 (14 October, 17:30 UTC). Before, it was at +06:30 from September 1942 and from
  October 1941 to May 1942, at +05:30 from 1906, at +05:21:10 from 1870, at +05:53:20
  from 28 June 1854 and at the local mean time of Kolkata, +05:53:28, until then.
\<close>

definition Asia_Kolkata :: "int \<Rightarrow> int" where
  "Asia_Kolkata t =
     (if - 764145000000 \<le> t then 19800000
      else if - 862637400000 \<le> t then 23400000
      else if - 872058600000 \<le> t then 19800000
      else if - 891581400000 \<le> t then 23400000
      else if - 2019705670000 \<le> t then 19800000
      else if - 3155694800000 \<le> t then 19270000
      else if - 3645237208000 \<le> t then 21200000
      else 21208000)"

text \<open>The local time of the zone, in milliseconds, and its hour and minute of the day.\<close>

definition local_time :: "int \<Rightarrow> int" where
  "local_time t = t + Asia_Kolkata t"

definition hour_of_day :: "int \<Rightarrow> int" where
  "hour_of_day l = l mod 86400000 div 3600000"

definition minute_of_hour :: "int \<Rightarrow> int" where
  "minute_of_hour l = l mod 86400000 div 60000 mod 60"

definition two_digit :: "int \<Rightarrow> string" where
  "two_digit n = [char_of (48 + n div 10), char_of (48 + n mod 10)]"

text \<open>\<^verbatim>\<open>year: 'numeric'\<close>: the year in full, without the era; a year \<open>y\<close> before the
  year 1 is shown as \<open>1 - y\<close> (ECMA-402, FormatDateTimePattern).\<close>

definition year_text :: "int \<Rightarrow> string" where
  "year_text y = show_int (if y \<le> 0 then 1 - y else y)"

definition space_text :: "space \<Rightarrow> string" where
  "space_text s =
     (case s of Space \<Rightarrow> '' '' | Narrow_no_break_space \<Rightarrow> [CHR 0xE2, CHR 0x80, CHR 0xAF])"

text \<open>
  \<^verbatim>\<open>toLocaleString('en-IN', {timeZone: 'Asia/Kolkata', day: '2-digit', month: '2-digit',
  year: 'numeric', hour: '2-digit', minute: '2-digit'})\<close>. No \<^verbatim>\<open>hour12\<close> or
  \<^verbatim>\<open>hourCycle\<close> option is given, so the hour cycle is the one of the locale, which
  for \<^verbatim>\<open>en-IN\<close> is the 12-hour clock with the day period \<^verbatim>\<open>am\<close> or \<^verbatim>\<open>pm\<close>; the
  locale's pattern puts a comma between date and time. The calendar is the proleptic
  Gregorian one. The locale data are those of a build of Node.js with full ICU (the
  default since version 13).
\<close>

definition toLocaleString :: "runtime \<Rightarrow> int option \<Rightarrow> string" where
  "toLocaleString rt tv =
     (case tv of
        None \<Rightarrow> ''Invalid Date''
      | Some t \<Rightarrow>
          (let (y, m, d) = civil_from_days (local_time t div 86400000);
               h = hour_of_day (local_time t)
           in two_digit d @ ''/'' @ two_digit m @ ''/'' @ year_text y @ '', ''
              @ two_digit (if h mod 12 = 0 then 12 else h mod 12) @ '':''
              @ two_digit (minute_of_hour (local_time t))
              @ space_text (day_period_space rt) @ (if 12 \<le> h then ''pm'' else ''am'')))"

definition orderTime :: "runtime \<Rightarrow> jsval \<Rightarrow> js_error + string" where
  "orderTime rt order =
     bind (js_get order ''created_at'') (\<lambda>c.
     bind (new_Date rt c) (\<lambda>tv. Inr (toLocaleString rt tv)))"

text \<open>The emoji of the template, as UTF-8.\<close>

definition emoji :: "int \<Rightarrow> string" where
  "emoji k = [CHR 0xF0, CHR 0x9F, char_of (k div 256), char_of (k mod 256)]"

definition shopping_bags :: string where
  "shopping_bags = emoji 0x9B8D @ [CHR 0xEF, CHR 0xB8, CHR 0x8F]"

text \<open>\<^verbatim>\<open>a > 5\<close> for the \<^verbatim>\<open>length\<close> of an array, which is a number.\<close>

definition js_gt :: "jsval \<Rightarrow> int \<Rightarrow> bool" where
  "js_gt a k = (case a of JNum n \<Rightarrow> k < n | _ \<Rightarrow> False)"

definition more_items :: "jsval \<Rightarrow> js_error + jsval" where
  "more_items order =
     bind (js_get order ''line_items'') (\<lambda>line_items.
     bind (js_get line_items ''length'') (\<lambda>n.
     Inr (JStr (if js_gt n 5 then nl @ ''... and more items'' else []))))"

definition message ::
  "jsval \<Rightarrow> string \<Rightarrow> string \<Rightarrow> string \<Rightarrow> string \<Rightarrow> js_error + string" where
  "message order name items address time =
     template
      [Lit shopping_bags, Lit '' NEW ORDER ALERT!'', Lit nl, Lit nl,
       Lit (emoji 0x938B), Lit '' Order #'', Sub (js_get order ''order_number''), Lit nl,
       Lit (emoji 0x91A4), Lit '' Customer: '', Lit name, Lit nl,
       Lit (emoji 0x93A7), Lit '' Email: '',
       Sub (or_else (js_get order ''email'') (JStr ''N/A'')), Lit nl,
       Lit (emoji 0x93B1), Lit '' Phone: '',
       Sub (or_else (js_get order ''phone'') (JStr ''N/A'')), Lit nl, Lit nl,
       Lit (emoji 0x92B0), Lit '' Total Amount: '', Sub (js_get order ''currency''), Lit '' '',
       Sub (js_get order ''total_price''), Lit nl,
       Lit (emoji 0x93A6), Lit '' Total Items: '',
       Sub (bind (js_get order ''line_items'') (\<lambda>line_items. js_get line_items ''length'')),
       Lit nl, Lit nl,
       Lit (emoji 0x9B92), Lit '' Items Ordered:'', Lit nl,
       Lit items, Sub (more_items order), Lit nl, Lit nl,
       Lit (emoji 0x938D), Lit '' Shipping Address:'', Lit nl,
       Lit address, Lit nl, Lit nl,
       Lit (emoji 0x9592), Lit '' Order Time: '', Lit time, Lit nl,
       Lit (emoji 0x8FAA), Lit '' Store: AD Plants Shop'', Lit nl, Lit nl,
       Lit ''---'', Lit nl,
       Lit ''Powered by AD Plants Webhook System'']"

text \<open>The whole block, in the order of the source.\<close>

definition format_message :: "runtime \<Rightarrow> jsval \<Rightarrow> js_error + string" where
  "format_message rt order =
     bind (customerName order) (\<lambda>cn.
     bind (itemsList order) (\<lambda>il.
     bind (shippingAddress order) (\<lambda>sa.
     bind (orderTime rt order) (\<lambda>ot.
     message order cn il sa ot))))"

subsection \<open>The handler of POST /webhooks/orders/create (lines 141--241)\<close>

text \<open>What the handler reads from the request: the signature header and \<^verbatim>\<open>req.body\<close>,
  as the body parsers left it.\<close>

record request =
  hmacHeader :: "string option"
  req_body :: jsval

datatype response_body =
    Unauthorized
  | Success jsval int bool
  | Error_logged string int
  | Internal_server_error

record response =
  status :: nat
  json :: response_body

text \<open>The argument of the first \<^verbatim>\<open>console.log\<close> (lines 152--157), evaluated before the
  signature is checked.\<close>

definition order_received :: "jsval \<Rightarrow> js_error + event" where
  "order_received order =
     bind (js_get order ''order_number'') (\<lambda>order_number.
     bind (or_else (js_get_opt (js_get order ''customer'') ''first_name'') (JStr ''Guest''))
       (\<lambda>customer.
     bind (template [Sub (js_get order ''currency''), Lit '' '', Sub (js_get order ''total_price'')])
       (\<lambda>total.
     bind (or_else (js_get_opt (js_get order ''line_items'') ''length'') (JNum 0))
       (\<lambda>items_count.
     Inr (Log_order_received order_number customer total items_count)))))"

text \<open>Lines 149 and 150: what is handed to the signature check, and the order.\<close>

definition body_of :: "jsval \<Rightarrow> string option" where
  "body_of b = (case b of JStr s \<Rightarrow> Some s | _ \<Rightarrow> JSON_stringify b)"

definition order_of :: "runtime \<Rightarrow> jsval \<Rightarrow> js_error + jsval" where
  "order_of rt b = (case b of JStr s \<Rightarrow> JSON_parse rt s | _ \<Rightarrow> Inr b)"

text \<open>Lines 212--227, after the message is built.\<close>

definition notify :: "config \<Rightarrow> runtime \<Rightarrow> jsval \<Rightarrow> string \<Rightarrow> event list \<times> (js_error + response)" where
  "notify cfg rt order text =
     (let (sent, whatsappResult) = sendWhatsAppMessage cfg rt text;
          processingTime = Date_now rt 1 - Date_now rt 0
      in case js_get order ''order_number'' of
           Inl e \<Rightarrow> ([Log_sending] @ sent, Inl e)
         | Inr order_number \<Rightarrow>
             (case js_toString order_number of
                Inl e \<Rightarrow> ([Log_sending] @ sent, Inl e)
              | Inr shown \<Rightarrow>
                  ([Log_sending] @ sent
                     @ [Log_processed order_number processingTime (success whatsappResult)],
                   Inr \<lparr>status = 200,
                        json = Success order_number processingTime (success whatsappResult)\<rparr>)))"

text \<open>The \<^verbatim>\<open>try\<close> block: the events so far, and the response or the exception.\<close>

definition webhook_try :: "config \<Rightarrow> runtime \<Rightarrow> request \<Rightarrow> event list \<times> (js_error + response)" where
  "webhook_try cfg rt req =
     (case order_of rt (req_body req) of
        Inl e \<Rightarrow> ([Log_webhook_received], Inl e)
      | Inr order \<Rightarrow>
          (case order_received order of
             Inl e \<Rightarrow> ([Log_webhook_received], Inl e)
           | Inr received \<Rightarrow>
               let (checked, valid) =
                     (if env_truthy (SHOPIFY_WEBHOOK_SECRET cfg)
                      then verifyShopifyWebhook cfg (body_of (req_body req)) (hmacHeader req)
                      else ([], True))
               in if \<not> valid
                  then ([Log_webhook_received, received] @ checked @ [Log_verification_failed],
                        Inr \<lparr>status = 401, json = Unauthorized\<rparr>)
                  else (case format_message rt order of
                          Inl e \<Rightarrow> ([Log_webhook_received, received] @ checked, Inl e)
                        | Inr text \<Rightarrow>
                            (let (sent, r) = notify cfg rt order text
                             in ([Log_webhook_received, received] @ checked @ sent, r)))))"

text \<open>With the \<^verbatim>\<open>catch\<close> block (lines 229--240).\<close>

definition orders_create :: "config \<Rightarrow> runtime \<Rightarrow> request \<Rightarrow> event list \<times> response" where
  "orders_create cfg rt req =
     (case webhook_try cfg rt req of
        (evs, Inr r) \<Rightarrow> (evs, r)
      | (evs, Inl e) \<Rightarrow>
          (evs @ [Log_processing_error e (Date_now rt 1 - Date_now rt 0)],
           \<lparr>status = 200, json = Error_logged (message_of e) (Date_now rt 1 - Date_now rt 0)\<rparr>))"

subsection \<open>The application: body parsers, route, error handler (lines 7--8, 259--263)\<close>

text \<open>
  A request to the route as it arrives: whether its \<^verbatim>\<open>Content-Type\<close> is
  \<^verbatim>\<open>application/json\<close> (in UTF-8), the bytes of its body, and the signature header.
\<close>

record http_request =
  content_type_json :: bool
  raw_body :: string
  X_Shopify_Hmac_Sha256 :: "string option"

text \<open>
  The body parser decodes the bytes of the body as UTF-8 with the string decoder of
  Node.js: a well-formed sequence is kept, every maximal part of an ill-formed sequence
  becomes U+FFFD, and a byte order mark at the start of the text is dropped.
  \<open>continues lo hi cs\<close> tells whether \<open>cs\<close> starts with a byte between \<open>lo\<close> and \<open>hi\<close>.
\<close>

definition replacement :: string where
  "replacement = [CHR 0xEF, CHR 0xBF, CHR 0xBD]"

definition continues :: "int \<Rightarrow> int \<Rightarrow> string \<Rightarrow> bool" where
  "continues lo hi cs = (case cs of [] \<Rightarrow> False | c # r \<Rightarrow> lo \<le> of_char c \<and> of_char c \<le> hi)"

text \<open>The first sequence of a text that starts with the byte \<open>b\<close>: whether it is
  well-formed, and how many of the bytes after \<open>b\<close> belong to it.\<close>

definition first_sequence :: "char \<Rightarrow> string \<Rightarrow> bool \<times> nat" where
  "first_sequence b cs =
     (let n = (of_char b :: int);
          k = (if 194 \<le> n \<and> n \<le> 223 then 1 else if 224 \<le> n \<and> n \<le> 239 then 2
               else if 240 \<le> n \<and> n \<le> 244 then 3 else (0 :: nat));
          lo = (if n = 224 then 160 else if n = 240 then 144 else 128);
          hi = (if n = 237 then 159 else if n = 244 then 143 else 191)
      in if n < 128 then (True, 0)
         else if k = 0 \<or> \<not> continues lo hi cs then (False, 0)
         else if k = 1 then (True, 1)
         else if \<not> continues 128 191 (drop 1 cs) then (False, 1)
         else if k = 2 then (True, 2)
         else if \<not> continues 128 191 (drop 2 cs) then (False, 2)
         else (True, 3))"

fun utf8_decode :: "string \<Rightarrow> string" where
  "utf8_decode [] = []"
| "utf8_decode (b # cs) =
     (let (well_formed, k) = first_sequence b cs
      in (if well_formed then b # take k cs else replacement) @ utf8_decode (drop k cs))"

definition strip_bom :: "string \<Rightarrow> string" where
  "strip_bom s = (if take 3 s = [CHR 0xEF, CHR 0xBB, CHR 0xBF] then drop 3 s else s)"

definition decode_body :: "string \<Rightarrow> string" where
  "decode_body bs = strip_bom (utf8_decode bs)"

text \<open>
  \<^verbatim>\<open>express.json({limit: '50mb'})\<close> of Express 4 is the first middleware. On a request
  of another content type it sets \<^verbatim>\<open>req.body\<close> to \<^verbatim>\<open>{}\<close>. On a JSON request it reads
  the body, refuses more than 50 MB, decodes the bytes, takes the empty text for \<^verbatim>\<open>{}\<close>,
  refuses (strict mode) a text whose first character after white space is neither a
  brace nor a bracket, and parses the rest with \<^verbatim>\<open>JSON.parse\<close>; what it refuses goes
  to the error handler. \<^verbatim>\<open>express.raw\<close>, registered after it for the same content
  type, finds the body parsed and does nothing.
\<close>

definition express_json :: "runtime \<Rightarrow> http_request \<Rightarrow> js_error + jsval" where
  "express_json rt rq =
     (if \<not> content_type_json rq then Inr (JObj [])
      else if 52428800 < int (length (raw_body rq))
      then Inl (PayloadTooLargeError ''request entity too large'')
      else let body = decode_body (raw_body rq)
           in if body = [] then Inr (JObj [])
              else if take 1 (skip_ws body) \<noteq> ''{'' \<and> take 1 (skip_ws body) \<noteq> ''[''
              then Inl (SyntaxError ''Unexpected token in JSON at position 0'')
              else JSON_parse rt body)"

definition app_post_orders_create :: "config \<Rightarrow> runtime \<Rightarrow> http_request \<Rightarrow> event list \<times> response"
  where
  "app_post_orders_create cfg rt rq =
     (case express_json rt rq of
        Inl e \<Rightarrow> ([Log_unhandled_error e], \<lparr>status = 500, json = Internal_server_error\<rparr>)
      | Inr b \<Rightarrow> orders_create cfg rt \<lparr>hmacHeader = X_Shopify_Hmac_Sha256 rq, req_body = b\<rparr>)"

subsection \<open>The orders of the data model\<close>

text \<open>
  An order as section 3 of the specification describes it, among the values that the
  handler may be given: its scalar fields are primitives (missing ones included), its
  line items are an array of items with primitive title, quantity and price, and its
  customer and shipping address, where present, have primitive fields.
\<close>

definition is_primitive :: "jsval \<Rightarrow> bool" where
  "is_primitive v = (case v of JArr xs \<Rightarrow> False | JObj kvs \<Rightarrow> False | _ \<Rightarrow> True)"

definition has_primitive :: "jsval \<Rightarrow> string \<Rightarrow> bool" where
  "has_primitive v k = (case js_get v k of Inr x \<Rightarrow> is_primitive x | Inl e \<Rightarrow> False)"

definition is_line_item :: "jsval \<Rightarrow> bool" where
  "is_line_item item =
     (has_primitive item ''title'' \<and> has_primitive item ''quantity'' \<and> has_primitive item ''price'')"

definition is_customer :: "jsval \<Rightarrow> bool" where
  "is_customer c = (has_primitive c ''first_name'' \<and> has_primitive c ''last_name'')"

definition is_address :: "jsval \<Rightarrow> bool" where
  "is_address a =
     (has_primitive a ''address1'' \<and> has_primitive a ''city'' \<and> has_primitive a ''province''
      \<and> has_primitive a ''zip'' \<and> has_primitive a ''country'')"

definition absent :: "jsval \<Rightarrow> string \<Rightarrow> bool" where
  "absent order k = (js_get order k = Inr JUndefined \<or> js_get order k = Inr JNull)"

definition line_items_of :: "jsval \<Rightarrow> jsval list option" where
  "line_items_of order = (case js_get order ''line_items'' of Inr (JArr xs) \<Rightarrow> Some xs | _ \<Rightarrow> None)"

definition is_order :: "jsval \<Rightarrow> bool" where
  "is_order order =
     (has_primitive order ''order_number'' \<and> has_primitive order ''currency''
      \<and> has_primitive order ''total_price'' \<and> has_primitive order ''created_at''
      \<and> has_primitive order ''email'' \<and> has_primitive order ''phone''
      \<and> (case js_get order ''customer'' of
            Inr c \<Rightarrow> if truthy c then is_customer c else True | Inl e \<Rightarrow> False)
      \<and> (case js_get order ''shipping_address'' of
            Inr a \<Rightarrow> if truthy a then is_address a else True | Inl e \<Rightarrow> False)
      \<and> (case line_items_of order of Some xs \<Rightarrow> list_all is_line_item xs | None \<Rightarrow> False))"

text \<open>The text of a primitive, and the line of an item in the message.\<close>

definition text_of :: "jsval \<Rightarrow> string" where
  "text_of v = (case js_toString v of Inr s \<Rightarrow> s | Inl e \<Rightarrow> [])"

definition field :: "jsval \<Rightarrow> string \<Rightarrow> jsval" where
  "field v k = (case js_get v k of Inr x \<Rightarrow> x | Inl e \<Rightarrow> JUndefined)"

definition line_of :: "jsval \<Rightarrow> jsval \<Rightarrow> string" where
  "line_of order item =
     bullet @ '' '' @ text_of (field item ''title'') @ '' (Qty: ''
     @ text_of (field item ''quantity'') @ '') - '' @ text_of (field order ''currency'') @ '' ''
     @ text_of (field item ''price'')"

text \<open>The message that the template yields for an order of the data model, in three
  parts: up to the heading of the items, the items, and the rest.\<close>

definition or_text :: "jsval \<Rightarrow> string \<Rightarrow> string" where
  "or_text v d = (if truthy v then text_of v else d)"

definition name_text :: "jsval \<Rightarrow> string" where
  "name_text order =
     (if truthy (field order ''customer'')
      then trim (or_text (field (field order ''customer'') ''first_name'') [] @ '' ''
                 @ or_text (field (field order ''customer'') ''last_name'') [])
      else ''Guest Customer'')"

definition address_text :: "jsval \<Rightarrow> string" where
  "address_text order =
     (if truthy (field order ''shipping_address'')
      then or_text (field (field order ''shipping_address'') ''address1'') [] @ nl
           @ or_text (field (field order ''shipping_address'') ''city'') [] @ '', ''
           @ or_text (field (field order ''shipping_address'') ''province'') [] @ '' ''
           @ or_text (field (field order ''shipping_address'') ''zip'') [] @ nl
           @ or_text (field (field order ''shipping_address'') ''country'') []
      else ''No shipping address provided'')"

definition time_text :: "runtime \<Rightarrow> jsval \<Rightarrow> string" where
  "time_text rt order =
     toLocaleString rt (case new_Date rt (field order ''created_at'') of Inr tv \<Rightarrow> tv | Inl e \<Rightarrow> None)"

definition items_text :: "jsval \<Rightarrow> jsval list \<Rightarrow> string" where
  "items_text order xs =
     join nl (map (line_of order) (take 5 xs))
     @ (if 5 < length xs then nl @ ''... and more items'' else [])"

definition message_head :: "jsval \<Rightarrow> nat \<Rightarrow> string" where
  "message_head order n =
     shopping_bags @ '' NEW ORDER ALERT!'' @ nl @ nl
     @ emoji 0x938B @ '' Order #'' @ text_of (field order ''order_number'') @ nl
     @ emoji 0x91A4 @ '' Customer: '' @ name_text order @ nl
     @ emoji 0x93A7 @ '' Email: '' @ or_text (field order ''email'') ''N/A'' @ nl
     @ emoji 0x93B1 @ '' Phone: '' @ or_text (field order ''phone'') ''N/A'' @ nl @ nl
     @ emoji 0x92B0 @ '' Total Amount: '' @ text_of (field order ''currency'') @ '' ''
     @ text_of (field order ''total_price'') @ nl
     @ emoji 0x93A6 @ '' Total Items: '' @ show_int (int n) @ nl @ nl
     @ emoji 0x9B92 @ '' Items Ordered:'' @ nl"

definition message_tail :: "runtime \<Rightarrow> jsval \<Rightarrow> string" where
  "message_tail rt order =
     nl @ nl @ emoji 0x938D @ '' Shipping Address:'' @ nl @ address_text order @ nl @ nl
     @ emoji 0x9592 @ '' Order Time: '' @ time_text rt order @ nl
     @ emoji 0x8FAA @ '' Store: AD Plants Shop'' @ nl @ nl
     @ ''---'' @ nl @ ''Powered by AD Plants Webhook System''"

text \<open>The order time as the specification words it: \<^verbatim>\<open>DD/MM/YYYY HH:MM\<close> on the
  24-hour clock.\<close>

definition order_time_24h :: "int \<Rightarrow> string" where
  "order_time_24h t =
     (let (y, m, d) = civil_from_days (local_time t div 86400000)
      in two_digit d @ ''/'' @ two_digit m @ ''/'' @ year_text y @ '' ''
         @ two_digit (hour_of_day (local_time t)) @ '':''
         @ two_digit (minute_of_hour (local_time t)))"

subsection \<open>Example inputs\<close>

definition example_config :: config where
  "example_config =
     \<lparr>WHATSAPP_TOKEN = None, PHONE_NUMBER_ID = None, COMPANY_WHATSAPP = ''971500000009'',
      SHOPIFY_WEBHOOK_SECRET = Some ''shpss_test_secret''\<rparr>"

definition example_body :: string where
  "example_body = ''{\"order_number\":1001}''"

text \<open>
  A runtime: the provider accepts every message, the clock advances 42 ms,
  \<^verbatim>\<open>Date.parse\<close> is given on the one timestamp of the examples, \<^verbatim>\<open>JSON.parse\<close> is
  the parser above (on a text outside its fragment, which no example is, it answers as
  on a malformed one), and the day period is set off by U+0020. The second runtime
  differs in the last point only.
\<close>

definition example_runtime :: runtime where
  "example_runtime =
     \<lparr>axios_post = (\<lambda>rq. Inr (JObj [(''messaging_product'', JStr ''whatsapp'')])),
      Date_now = (\<lambda>k. 1705314600000 + 42 * int k),
      Date_parse = (\<lambda>s. if s = ''2024-01-15T10:30:00Z'' then Some 1705314600000 else None),
      JSON_parse = (\<lambda>s. case json_parse s of
                          Parsed v r \<Rightarrow> Inr v
                        | _ \<Rightarrow> Inl (SyntaxError ''Unexpected token in JSON'')),
      day_period_space = Space\<rparr>"

definition newer_runtime :: runtime where
  "newer_runtime = example_runtime\<lparr>day_period_space := Narrow_no_break_space\<rparr>"

definition example_item :: "string \<Rightarrow> jsval" where
  "example_item t = JObj [(''title'', JStr t), (''quantity'', JNum 2), (''price'', JStr ''10.00'')]"

definition example_order :: "jsval list \<Rightarrow> jsval" where
  "example_order items =
     JObj [(''order_number'', JNum 1001), (''currency'', JStr ''AED''),
           (''total_price'', JStr ''20.00''), (''created_at'', JStr ''2024-01-15T10:30:00Z''),
           (''line_items'', JArr items)]"

text \<open>A body with a space after the colon, as a sender may write it, the same
  request with a correct signature of these bytes and without one, and a body cut short.\<close>

definition spaced_body :: string where
  "spaced_body = ''{\"order_number\": 1001}''"

definition signed_request :: http_request where
  "signed_request =
     \<lparr>content_type_json = True, raw_body = spaced_body,
      X_Shopify_Hmac_Sha256 = Some ''zn5EqWRqBII6Hd7pKMkNEnh8GMrQJikJdB2SCKh8mEQ=''\<rparr>"

definition unsigned_request :: http_request where
  "unsigned_request =
     \<lparr>content_type_json = True, raw_body = spaced_body, X_Shopify_Hmac_Sha256 = None\<rparr>"

definition truncated_request :: http_request where
  "truncated_request =
     \<lparr>content_type_json = True, raw_body = ''{\"order_number\": 1001'',
      X_Shopify_Hmac_Sha256 = None\<rparr>"

text \<open>Orders of seven and of six items, a request whose signature is the HMAC of the
  text that the handler checks, and a request without line items for a configuration
  without secret.\<close>

definition seven_items :: "jsval list" where
  "seven_items =
     map example_item [''Fern'', ''Cactus'', ''Aloe'', ''Palm'', ''Ivy'', ''Moss'', ''Lily'']"

definition seven_items_changed :: "jsval list" where
  "seven_items_changed =
     map example_item [''Fern'', ''Cactus'', ''Aloe'', ''Palm'', ''Ivy'', ''Sage'', ''Mint'']"

definition six_items :: "jsval list" where
  "six_items = map example_item [''Fern'', ''Cactus'', ''Aloe'', ''Palm'', ''Ivy'', ''Fern'']"

definition minimal_request :: request where
  "minimal_request =
     \<lparr>hmacHeader = Some ''rngweZWTwImrSzJAhp/uVLHiM1hEkqEz+zUo+unx5gw='',
      req_body = JObj [(''line_items'', JArr [])]\<rparr>"

definition open_config :: config where
  "open_config = example_config\<lparr>SHOPIFY_WEBHOOK_SECRET := None\<rparr>"

definition no_items_request :: request where
  "no_items_request = \<lparr>hmacHeader = None, req_body = JObj [(''order_number'', JNum 1001)]\<rparr>"

subsection \<open>Events of delivery and of the signature check\<close>

definition is_delivery :: "event \<Rightarrow> bool" where
  "is_delivery ev =
     (case ev of
        Log_sending \<Rightarrow> True
      | Log_no_credentials m \<Rightarrow> True
      | Http_post r \<Rightarrow> True
      | Log_sent d \<Rightarrow> True
      | Log_send_error e \<Rightarrow> True
      | _ \<Rightarrow> False)"

text \<open>What \<^verbatim>\<open>verifyShopifyWebhook\<close> logs when it checks a signature (lines 41 and 44).\<close>

definition is_verification :: "event \<Rightarrow> bool" where
  "is_verification ev =
     (case ev of
        Log_verification valid \<Rightarrow> True
      | Log_verification_error e \<Rightarrow> True
      | _ \<Rightarrow> False)"

section \<open>Properties\<close>

lemma bind_Inr [simp]: "bind (Inr x) f = f x"
  by (simp add: bind_def)

lemma bind_Inl [simp]: "bind (Inl e) f = Inl e"
  by (simp add: bind_def)

subsection \<open>Base64\<close>

lemma of_char_b64_char:
  "i < 64 \<Longrightarrow> (of_char (b64_char i) :: nat) =
     (if i < 26 then i + 65 else if i < 52 then i + 71 else if i < 62 then i - 4
      else if i = 62 then 43 else 47)"
  by (simp add: b64_char_def)

lemma unbase64_b64_char: "i < 64 \<Longrightarrow> unbase64 (b64_char i) = Some i"
  unfolding unbase64_def Let_def of_char_b64_char
  by (auto simp: b64_char_def)

lemma b64_char_not_pad: "i < 64 \<Longrightarrow> b64_char i \<noteq> CHR ''=''"
proof
  assume i: "i < 64" and "b64_char i = CHR ''=''"
  then have "(of_char (b64_char i) :: nat) = 61" by simp
  with i show False by (simp add: of_char_b64_char split: if_splits)
qed

lemma b64_sextets_char:
  "i < 64 \<Longrightarrow> b64_sextets (b64_char i # cs) = i # b64_sextets cs"
  by (simp add: unbase64_b64_char b64_char_not_pad)

lemma b64_sextets_pad: "b64_sextets (CHR ''='' # cs) = []"
  by simp

lemma unat_byte_lt: "unat (a :: byte) < 256"
  using unsigned_less [of a, where 'a = nat] by simp

lemma sextet_bounds:
  "unat (a :: byte) div 4 < 64"
  "unat (a :: byte) mod 4 * 16 + unat (b :: byte) div 16 < 64"
  "unat (b :: byte) mod 16 * 4 + unat (c :: byte) div 64 < 64"
  "unat (c :: byte) mod 64 < 64"
  "unat (b :: byte) mod 16 * 4 < 64"
  "unat (a :: byte) mod 4 * 16 < 64"
  using unat_byte_lt [of a] unat_byte_lt [of b] unat_byte_lt [of c] by simp_all

lemma byte1:
  "(of_nat (unat (a :: byte) div 4 * 4
      + (unat a mod 4 * 16 + unat (b :: byte) div 16) div 16) :: byte) = a"
proof -
  have "unat b div 16 < 16" using unat_byte_lt [of b] by simp
  then have "(unat a mod 4 * 16 + unat b div 16) div 16 = unat a mod 4" by simp
  then show ?thesis by simp
qed

lemma byte1_last:
  "(of_nat (unat (a :: byte) div 4 * 4 + (unat a mod 4 * 16) div 16) :: byte) = a"
  by simp

lemma byte2:
  "(of_nat ((unat (a :: byte) mod 4 * 16 + unat (b :: byte) div 16) mod 16 * 16
      + (unat b mod 16 * 4 + unat (c :: byte) div 64) div 4) :: byte) = b"
proof -
  have c: "unat c div 64 < 4" using unat_byte_lt [of c] by simp
  have b: "unat b div 16 < 16" using unat_byte_lt [of b] by simp
  have "(unat a mod 4 * 16 + unat b div 16) mod 16 = unat b div 16" using b by simp
  moreover have "(unat b mod 16 * 4 + unat c div 64) div 4 = unat b mod 16" using c by simp
  ultimately show ?thesis by simp
qed

lemma byte2_last:
  "(of_nat ((unat (a :: byte) mod 4 * 16 + unat (b :: byte) div 16) mod 16 * 16
      + (unat b mod 16 * 4) div 4) :: byte) = b"
proof -
  have b: "unat b div 16 < 16" using unat_byte_lt [of b] by simp
  have "(unat a mod 4 * 16 + unat b div 16) mod 16 = unat b div 16" using b by simp
  then show ?thesis by simp
qed

lemma byte3:
  "(of_nat ((unat (b :: byte) mod 16 * 4 + unat (c :: byte) div 64) mod 4 * 64
      + unat c mod 64) :: byte) = c"
proof -
  have c: "unat c div 64 < 4" using unat_byte_lt [of c] by simp
  have "(unat b mod 16 * 4 + unat c div 64) mod 4 = unat c div 64" using c by simp
  then show ?thesis by simp
qed

lemma b64_bytes_group3:
  "b64_bytes (unat (a :: byte) div 4 # (unat a mod 4 * 16 + unat (b :: byte) div 16)
     # (unat b mod 16 * 4 + unat (c :: byte) div 64) # unat c mod 64 # r)
   = a # b # c # b64_bytes r"
  by (simp only: b64_bytes.simps byte1 byte2 byte3 append.simps)

lemma b64_bytes_group2:
  "b64_bytes [unat (a :: byte) div 4, unat a mod 4 * 16 + unat (b :: byte) div 16,
     unat b mod 16 * 4] = [a, b]"
  by (simp only: b64_bytes.simps byte1 byte2_last)

lemma b64_bytes_group1:
  "b64_bytes [unat (a :: byte) div 4, unat a mod 4 * 16] = [a]"
  by (simp only: b64_bytes.simps byte1_last)

text \<open>Decoding what \<^verbatim>\<open>digest('base64')\<close> produced gives the digest back.\<close>

lemma b64_roundtrip: "b64_bytes (b64_sextets (b64_encode bs)) = bs"
proof (induction bs rule: b64_encode.induct)
  case (1 a b c bs)
  then show ?case
    by (simp only: b64_encode.simps append.simps b64_sextets_char sextet_bounds b64_bytes_group3)
next
  case (2 a b)
  show ?case
    by (simp only: b64_encode.simps b64_sextets_char sextet_bounds b64_sextets_pad
          b64_bytes_group2)
next
  case (3 a)
  show ?case
    by (simp only: b64_encode.simps b64_sextets_char sextet_bounds b64_sextets_pad
          b64_bytes_group1)
next
  case 4
  show ?case by simp
qed

subsection \<open>The signature check\<close>

lemma isValid_Some:
  "isValid secret (Some d) h =
     (case h of
        None \<Rightarrow> Inl (TypeError invalid_first_argument)
      | Some t \<Rightarrow> timingSafeEqual (hmac_sha256 (utf8 secret) (utf8 d)) (b64_bytes (b64_sextets t)))"
  by (simp add: isValid_def calculatedHmac_def Buffer_from_base64_def bind_def b64_roundtrip
        split: option.splits)

lemma verify_snd_iff:
  assumes "SHOPIFY_WEBHOOK_SECRET cfg = Some secret" and "secret \<noteq> []"
  shows "snd (verifyShopifyWebhook cfg (Some rawBody) h)
          \<longleftrightarrow> Buffer_from_base64 h = Inr (hmac_sha256 (utf8 secret) (utf8 rawBody))"
  using assms
  by (cases h)
     (auto simp: verifyShopifyWebhook_def isValid_Some timingSafeEqual_def
        Buffer_from_base64_def)

lemma hmac_example:
  "hmac_sha256 (utf8 ''shpss_test_secret'') (utf8 example_body) =
     [76, 28, 105, 141, 185, 166, 31, 116, 122, 120, 228, 74, 42, 16, 79, 55, 221, 4, 182, 154,
      84, 103, 200, 168, 207, 253, 215, 236, 52, 126, 104, 85]"
  by code_simp

lemma example_header_is_encoding:
  "b64_encode (hmac_sha256 (utf8 ''shpss_test_secret'') (utf8 example_body))
   = ''TBxpjbmmH3R6eORKKhBPN90EtppUZ8ioz/3X7DR+aFU=''"
  unfolding hmac_example by code_simp

lemma example_header_decodes:
  "Buffer_from_base64 (Some ''TBxpjbmmH3R6eORKKhBPN90EtppUZ8ioz/3X7DR+aFU='')
   = Inr (hmac_sha256 (utf8 ''shpss_test_secret'') (utf8 example_body))"
  unfolding hmac_example by code_simp

lemma example_unpadded_decodes:
  "Buffer_from_base64 (Some ''TBxpjbmmH3R6eORKKhBPN90EtppUZ8ioz/3X7DR+aFU'')
   = Inr (hmac_sha256 (utf8 ''shpss_test_secret'') (utf8 example_body))"
  unfolding hmac_example by code_simp

lemma example_secret:
  "SHOPIFY_WEBHOOK_SECRET example_config = Some ''shpss_test_secret''"
  "''shpss_test_secret'' \<noteq> []"
  by (simp_all add: example_config_def)

text \<open>
  C5. With no secret configured (the variable unset or empty) the check returns true,
  whatever the body and the header are.
\<close>

theorem verify_permissive:
  "\<not> env_truthy (SHOPIFY_WEBHOOK_SECRET cfg) \<Longrightarrow>
   snd (verifyShopifyWebhook cfg rawBody signatureHeader) = True"
  by (simp add: verifyShopifyWebhook_def env_truthy_def split: option.splits)

theorem verify_permissive_witness:
  "\<not> env_truthy (SHOPIFY_WEBHOOK_SECRET (example_config\<lparr>SHOPIFY_WEBHOOK_SECRET := None\<rparr>)) \<and>
   snd (verifyShopifyWebhook (example_config\<lparr>SHOPIFY_WEBHOOK_SECRET := None\<rparr>)
          (Some example_body) (Some ''not a signature'')) = True"
  using verify_permissive [of "example_config\<lparr>SHOPIFY_WEBHOOK_SECRET := None\<rparr>"
      "Some example_body" "Some ''not a signature''"]
  by (simp add: env_truthy_def)

text \<open>
  C2, as the code has it. With a secret configured the check returns true exactly when
  the header is present and its base64 decoding, which is lenient, is the HMAC-SHA256
  of the body bytes under the secret; this is so for the base64 encoding of that HMAC.
  For every other header, a missing one included, the result is false; no exception
  leaves the function.
\<close>

theorem verify_iff_decoded_header:
  assumes "SHOPIFY_WEBHOOK_SECRET cfg = Some secret" and "secret \<noteq> []"
  shows "(snd (verifyShopifyWebhook cfg (Some rawBody) signatureHeader)
            \<longleftrightarrow> Buffer_from_base64 signatureHeader
                  = Inr (hmac_sha256 (utf8 secret) (utf8 rawBody)))
         \<and> snd (verifyShopifyWebhook cfg (Some rawBody)
                  (Some (b64_encode (hmac_sha256 (utf8 secret) (utf8 rawBody)))))"
proof -
  have "Buffer_from_base64 (Some (b64_encode (hmac_sha256 (utf8 secret) (utf8 rawBody))))
      = Inr (hmac_sha256 (utf8 secret) (utf8 rawBody))"
    by (simp add: Buffer_from_base64_def b64_roundtrip)
  with verify_snd_iff [OF assms] show ?thesis by simp
qed

theorem verify_iff_decoded_header_witness:
  "SHOPIFY_WEBHOOK_SECRET example_config = Some ''shpss_test_secret''
   \<and> ''shpss_test_secret'' \<noteq> []
   \<and> snd (verifyShopifyWebhook example_config (Some example_body)
            (Some ''TBxpjbmmH3R6eORKKhBPN90EtppUZ8ioz/3X7DR+aFU=''))
   \<and> \<not> snd (verifyShopifyWebhook example_config (Some example_body) None)"
proof -
  note t = verify_iff_decoded_header [OF example_secret, of example_body]
  have "snd (verifyShopifyWebhook example_config (Some example_body)
            (Some ''TBxpjbmmH3R6eORKKhBPN90EtppUZ8ioz/3X7DR+aFU=''))"
    using t [THEN conjunct1] example_header_decodes by blast
  moreover have "\<not> snd (verifyShopifyWebhook example_config (Some example_body) None)"
    using t [of None, THEN conjunct1] by (simp add: Buffer_from_base64_def)
  ultimately show ?thesis using example_secret by blast
qed

text \<open>
  C2 as stated fails: the header without its padding character is not the base64
  encoding of the HMAC, and the check accepts it.
\<close>

theorem verify_accepts_unpadded_header:
  "snd (verifyShopifyWebhook example_config (Some example_body)
          (Some ''TBxpjbmmH3R6eORKKhBPN90EtppUZ8ioz/3X7DR+aFU''))
   \<and> ''TBxpjbmmH3R6eORKKhBPN90EtppUZ8ioz/3X7DR+aFU''
       \<noteq> b64_encode (hmac_sha256 (utf8 ''shpss_test_secret'') (utf8 example_body))"
proof -
  have "snd (verifyShopifyWebhook example_config (Some example_body)
          (Some ''TBxpjbmmH3R6eORKKhBPN90EtppUZ8ioz/3X7DR+aFU''))"
    using verify_snd_iff [OF example_secret] example_unpadded_decodes by blast
  moreover have "''TBxpjbmmH3R6eORKKhBPN90EtppUZ8ioz/3X7DR+aFU''
       \<noteq> b64_encode (hmac_sha256 (utf8 ''shpss_test_secret'') (utf8 example_body))"
    unfolding example_header_is_encoding by simp
  ultimately show ?thesis by blast
qed

subsection \<open>Delivery\<close>

text \<open>
  C8. Without the token or without the sender id (unset or empty) the delivery returns
  the skipped outcome with its reason, after logging the message, and issues no HTTP
  call; a call is issued exactly when both are present.
\<close>

theorem deliver_skipped_without_credentials:
  "(\<not> env_truthy (WHATSAPP_TOKEN cfg) \<or> \<not> env_truthy (PHONE_NUMBER_ID cfg) \<longrightarrow>
      sendWhatsAppMessage cfg rt text
        = ([Log_no_credentials text], Skipped ''No WhatsApp credentials''))
   \<and> ((\<exists>rq. Http_post rq \<in> set (fst (sendWhatsAppMessage cfg rt text)))
        \<longleftrightarrow> env_truthy (WHATSAPP_TOKEN cfg) \<and> env_truthy (PHONE_NUMBER_ID cfg))"
  by (auto simp: sendWhatsAppMessage_def Let_def split: sum.splits)

theorem deliver_skipped_without_credentials_witness:
  "sendWhatsAppMessage example_config example_runtime ''hello''
     = ([Log_no_credentials ''hello''], Skipped ''No WhatsApp credentials'')
   \<and> \<not> (\<exists>rq. Http_post rq
            \<in> set (fst (sendWhatsAppMessage example_config example_runtime ''hello'')))"
  using deliver_skipped_without_credentials [of example_config example_runtime "''hello''"]
  by (simp add: example_config_def env_truthy_def)

subsection \<open>The example requests\<close>

text \<open>The decoding of the body leaves a text of ASCII characters as it is; it drops a
  byte order mark and replaces a byte that is no UTF-8.\<close>

lemma utf8_decode_ascii: "\<forall>c \<in> set s. (of_char c :: int) < 128 \<Longrightarrow> utf8_decode s = s"
  by (induction s) (simp_all add: first_sequence_def)

lemma decode_body_ascii:
  assumes "\<forall>c \<in> set s. (of_char c :: int) < 128"
  shows "decode_body s = s"
proof -
  have "take 3 s \<noteq> [CHR 0xEF, CHR 0xBB, CHR 0xBF]"
  proof
    assume "take 3 s = [CHR 0xEF, CHR 0xBB, CHR 0xBF]"
    then have "CHR 0xEF \<in> set (take 3 s)" by simp
    then have "CHR 0xEF \<in> set s" by (rule in_set_takeD)
    with assms show False by auto
  qed
  then show ?thesis by (simp add: decode_body_def strip_bom_def utf8_decode_ascii [OF assms])
qed

lemma express_json_decodes:
  "express_json example_runtime
     \<lparr>content_type_json = True, raw_body = [CHR 0xEF, CHR 0xBB, CHR 0xBF] @ example_body,
      X_Shopify_Hmac_Sha256 = None\<rparr>
   = Inr (JObj [(''order_number'', JNum 1001)])"
  "express_json example_runtime
     \<lparr>content_type_json = True, raw_body = ''{\"name\":\"'' @ [CHR 0xFF] @ ''\"}'',
      X_Shopify_Hmac_Sha256 = None\<rparr>
   = Inr (JObj [(''name'', JStr replacement)])"
  by code_simp+

lemma parse_spaced:
  "JSON_parse example_runtime spaced_body = Inr (JObj [(''order_number'', JNum 1001)])"
  by code_simp

lemma body_of_example: "body_of (JObj [(''order_number'', JNum 1001)]) = Some example_body"
  by code_simp

lemma received_example:
  "order_received (JObj [(''order_number'', JNum 1001)])
     = Inr (Log_order_received (JNum 1001) (JStr ''Guest'') ''undefined undefined'' (JNum 0))"
  by code_simp

lemma express_json_spaced:
  "express_json example_runtime
     \<lparr>content_type_json = True, raw_body = spaced_body, X_Shopify_Hmac_Sha256 = h\<rparr>
   = Inr (JObj [(''order_number'', JNum 1001)])"
proof -
  have "52428800 < int (length spaced_body) = False" "decode_body spaced_body = spaced_body"
    "spaced_body \<noteq> []" "take 1 (skip_ws spaced_body) = ''{''"
    by code_simp+
  then show ?thesis by (simp add: express_json_def parse_spaced)
qed

lemma example_secret_truthy: "env_truthy (SHOPIFY_WEBHOOK_SECRET example_config)"
  by (simp add: example_config_def env_truthy_def)

lemma spaced_signature:
  "b64_encode (hmac_sha256 (utf8 ''shpss_test_secret'') (utf8 spaced_body))
     = ''zn5EqWRqBII6Hd7pKMkNEnh8GMrQJikJdB2SCKh8mEQ=''"
  by code_simp

lemma spaced_signature_decoded:
  "Buffer_from_base64 (Some ''zn5EqWRqBII6Hd7pKMkNEnh8GMrQJikJdB2SCKh8mEQ='')
   \<noteq> Inr (hmac_sha256 (utf8 ''shpss_test_secret'') (utf8 example_body))"
  unfolding hmac_example by code_simp

lemma verify_missing_header:
  "env_truthy (SHOPIFY_WEBHOOK_SECRET cfg) \<Longrightarrow>
   verifyShopifyWebhook cfg (Some d) None
     = ([Log_verification_error (TypeError invalid_first_argument)], False)"
  by (auto simp: verifyShopifyWebhook_def env_truthy_def isValid_def calculatedHmac_def
        Buffer_from_base64_def split: option.splits)

subsection \<open>What the signature is checked on\<close>

text \<open>
  C1 fails on the code. The JSON body parser has replaced the bytes of the request by
  the parsed object before the handler runs, and the handler checks the signature on
  \<^verbatim>\<open>JSON.stringify(req.body)\<close>. The body of \<open>signed_request\<close> has a space after the
  colon and its header is the HMAC of exactly these bytes; the text that is checked
  has no space, and the request is answered with 401.
\<close>

theorem signed_wire_bytes_rejected:
  "X_Shopify_Hmac_Sha256 signed_request
     = Some (b64_encode (hmac_sha256 (utf8 ''shpss_test_secret'') (utf8 (raw_body signed_request))))
   \<and> express_json example_runtime signed_request = Inr (JObj [(''order_number'', JNum 1001)])
   \<and> body_of (JObj [(''order_number'', JNum 1001)]) = Some example_body
   \<and> example_body \<noteq> raw_body signed_request
   \<and> snd (app_post_orders_create example_config example_runtime signed_request)
       = \<lparr>status = 401, json = Unauthorized\<rparr>"
proof -
  have "\<not> snd (verifyShopifyWebhook example_config (Some example_body)
            (Some ''zn5EqWRqBII6Hd7pKMkNEnh8GMrQJikJdB2SCKh8mEQ=''))"
    using verify_snd_iff [OF example_secret] spaced_signature_decoded by blast
  then obtain l where "verifyShopifyWebhook example_config (Some example_body)
            (Some ''zn5EqWRqBII6Hd7pKMkNEnh8GMrQJikJdB2SCKh8mEQ='') = (l, False)"
    by (cases "verifyShopifyWebhook example_config (Some example_body)
            (Some ''zn5EqWRqBII6Hd7pKMkNEnh8GMrQJikJdB2SCKh8mEQ='')") auto
  moreover have "example_body \<noteq> spaced_body"
    by (simp add: example_body_def spaced_body_def)
  ultimately show ?thesis
    by (simp add: signed_request_def spaced_signature app_post_orders_create_def
          express_json_spaced orders_create_def webhook_try_def order_of_def body_of_example
          received_example example_secret_truthy split: prod.splits)
qed

subsection \<open>The order of the steps\<close>

lemma verify_log:
  "env_truthy (SHOPIFY_WEBHOOK_SECRET cfg) \<Longrightarrow> snd (verifyShopifyWebhook cfg d h) \<Longrightarrow>
   fst (verifyShopifyWebhook cfg d h) = [Log_verification True]"
  by (auto simp: verifyShopifyWebhook_def env_truthy_def split: option.splits sum.splits)

lemma verify_one_event:
  "env_truthy (SHOPIFY_WEBHOOK_SECRET cfg) \<Longrightarrow>
   \<exists>v. fst (verifyShopifyWebhook cfg d h) = [v] \<and> is_verification v"
  by (auto simp: verifyShopifyWebhook_def env_truthy_def is_verification_def
        split: option.splits sum.splits)

lemma order_received_shape:
  "order_received order = Inr ev \<Longrightarrow> \<exists>a b c d. ev = Log_order_received a b c d"
  by (auto simp: order_received_def bind_def split: sum.splits)

lemma notify_events:
  "x \<in> set (fst (notify cfg rt order text)) \<Longrightarrow> \<not> is_verification x"
  by (auto simp: notify_def sendWhatsAppMessage_def Let_def is_verification_def
        split: prod.splits sum.splits if_splits)

text \<open>
  C3, as the code has it. With a secret configured, whatever belongs to the delivery of
  the notification (the notice that it is being sent, the log of the message, the HTTP
  call and its outcome) happens only after the signature check has succeeded: the run
  then starts with the receipt, the summary of the order and the successful check.
  The order is read from the payload, and its summary logged, before the check: on
  every run that makes the check, what the check logs comes third, after the receipt
  and the summary.
\<close>

theorem delivery_after_verification:
  assumes "env_truthy (SHOPIFY_WEBHOOK_SECRET cfg)"
  shows "(\<forall>ev \<in> set (fst (orders_create cfg rt req)). is_delivery ev \<longrightarrow>
            snd (verifyShopifyWebhook cfg (body_of (req_body req)) (hmacHeader req))
            \<and> (\<exists>a b c d rest. fst (orders_create cfg rt req)
                  = Log_webhook_received # Log_order_received a b c d
                    # Log_verification True # rest))
         \<and> (\<forall>ev \<in> set (fst (orders_create cfg rt req)). is_verification ev \<longrightarrow>
              (\<exists>a b c d rest. fst (orders_create cfg rt req)
                  = Log_webhook_received # Log_order_received a b c d # ev # rest))"
proof -
  let ?v = "verifyShopifyWebhook cfg (body_of (req_body req)) (hmacHeader req)"
  have no: "\<not> is_delivery Log_webhook_received" "\<not> is_delivery Log_verification_failed"
    "\<And>e t. \<not> is_delivery (Log_processing_error e t)"
    "\<And>a b c d. \<not> is_delivery (Log_order_received a b c d)"
    by (simp_all add: is_delivery_def)
  have nov: "\<not> is_verification Log_webhook_received" "\<not> is_verification Log_verification_failed"
    "\<And>e t. \<not> is_verification (Log_processing_error e t)"
    "\<And>a b c d. \<not> is_verification (Log_order_received a b c d)"
    by (simp_all add: is_verification_def)
  have vlog: "\<forall>x \<in> set (fst ?v). \<not> is_delivery x"
    by (auto simp: verifyShopifyWebhook_def is_delivery_def split: option.splits sum.splits)
  from verify_one_event [OF assms] obtain v where v: "fst ?v = [v]" "is_verification v"
    by blast
  have 1: "snd ?v \<and> (\<exists>a b c d rest. fst (orders_create cfg rt req)
               = Log_webhook_received # Log_order_received a b c d # Log_verification True # rest)"
    if ev: "ev \<in> set (fst (orders_create cfg rt req))" "is_delivery ev" for ev
  proof (cases "order_of rt (req_body req)")
    case (Inl e)
    with ev no show ?thesis
      by (auto simp: orders_create_def webhook_try_def)
  next
    case (Inr order)
    show ?thesis
    proof (cases "order_received order")
      case (Inl e)
      with Inr ev no show ?thesis
        by (auto simp: orders_create_def webhook_try_def)
    next
      case r: (Inr received)
      then obtain a b c d where rec: "received = Log_order_received a b c d"
        using order_received_shape by blast
      show ?thesis
      proof (cases "snd ?v")
        case False
        with Inr r rec assms ev no vlog show ?thesis
          by (auto simp: orders_create_def webhook_try_def split: prod.splits)
      next
        case True
        then have "fst ?v = [Log_verification True]" using assms verify_log by blast
        with True Inr r rec assms show ?thesis
          by (auto simp: orders_create_def webhook_try_def split: prod.splits sum.splits)
      qed
    qed
  qed
  have 2: "\<exists>a b c d rest. fst (orders_create cfg rt req)
               = Log_webhook_received # Log_order_received a b c d # ev # rest"
    if ev: "ev \<in> set (fst (orders_create cfg rt req))" "is_verification ev" for ev
  proof (cases "order_of rt (req_body req)")
    case (Inl e)
    with ev nov show ?thesis
      by (auto simp: orders_create_def webhook_try_def)
  next
    case (Inr order)
    show ?thesis
    proof (cases "order_received order")
      case (Inl e)
      with Inr ev nov show ?thesis
        by (auto simp: orders_create_def webhook_try_def)
    next
      case r: (Inr received)
      then obtain a b c d where rec: "received = Log_order_received a b c d"
        using order_received_shape by blast
      obtain l valid where vv: "?v = (l, valid)" by (cases ?v) blast
      with v have l: "l = [v]" by simp
      have "\<exists>rest. fst (orders_create cfg rt req)
                 = Log_webhook_received # Log_order_received a b c d # v # rest
               \<and> (\<forall>x \<in> set rest. \<not> is_verification x)"
      proof (cases valid)
        case False
        with Inr r rec assms vv l nov show ?thesis
          by (simp add: orders_create_def webhook_try_def)
      next
        case True
        show ?thesis
        proof (cases "format_message rt order")
          case (Inl e)
          with True Inr r rec assms vv l nov show ?thesis
            by (simp add: orders_create_def webhook_try_def)
        next
          case f: (Inr msg)
          obtain sent y where n: "notify cfg rt order msg = (sent, y)"
            by (cases "notify cfg rt order msg") blast
          have s: "\<forall>x \<in> set sent. \<not> is_verification x"
            using notify_events [of _ cfg rt order msg] n by auto
          show ?thesis
          proof (cases y)
            case (Inl e)
            with True f n s Inr r rec assms vv l nov show ?thesis
              by (simp add: orders_create_def webhook_try_def)
          next
            case y: (Inr resp)
            with True f n s Inr r rec assms vv l nov show ?thesis
              by (simp add: orders_create_def webhook_try_def)
          qed
        qed
      qed
      then obtain rest where
        tr: "fst (orders_create cfg rt req)
              = Log_webhook_received # Log_order_received a b c d # v # rest"
        and rest: "\<forall>x \<in> set rest. \<not> is_verification x"
        by blast
      from ev tr rest nov have "ev = v" by auto
      with tr show ?thesis by blast
    qed
  qed
  from 1 2 show ?thesis by blast
qed

theorem delivery_after_verification_witness:
  "env_truthy (SHOPIFY_WEBHOOK_SECRET example_config)
   \<and> Log_sending \<in> set (fst (orders_create example_config example_runtime minimal_request))
   \<and> is_delivery Log_sending
   \<and> snd (verifyShopifyWebhook example_config (body_of (req_body minimal_request))
            (hmacHeader minimal_request))
   \<and> (\<exists>a b c d rest. fst (orders_create example_config example_runtime minimal_request)
         = Log_webhook_received # Log_order_received a b c d # Log_verification True # rest)
   \<and> Log_verification_error (TypeError invalid_first_argument)
         \<in> set (fst (orders_create example_config example_runtime no_items_request))
   \<and> is_verification (Log_verification_error (TypeError invalid_first_argument))
   \<and> (\<exists>a b c d rest. fst (orders_create example_config example_runtime no_items_request)
         = Log_webhook_received # Log_order_received a b c d
           # Log_verification_error (TypeError invalid_first_argument) # rest)"
proof -
  have h: "env_truthy (SHOPIFY_WEBHOOK_SECRET example_config)"
    by code_simp
  have d: "Log_sending \<in> set (fst (orders_create example_config example_runtime minimal_request))"
    "is_delivery Log_sending"
    by code_simp+
  have v: "Log_verification_error (TypeError invalid_first_argument)
         \<in> set (fst (orders_create example_config example_runtime no_items_request))"
    "is_verification (Log_verification_error (TypeError invalid_first_argument))"
    by code_simp+
  note t = delivery_after_verification [OF h, of example_runtime]
  from t [of minimal_request, THEN conjunct1, rule_format, OF d]
       t [of no_items_request, THEN conjunct2, rule_format, OF v] h d v
  show ?thesis by blast
qed

text \<open>
  C3 as stated fails: the request without a signature is refused, and the run has
  logged the order number read from its payload before the check.
\<close>

theorem order_read_before_verification:
  "fst (app_post_orders_create example_config example_runtime unsigned_request)
   = [Log_webhook_received,
      Log_order_received (JNum 1001) (JStr ''Guest'') ''undefined undefined'' (JNum 0),
      Log_verification_error (TypeError invalid_first_argument),
      Log_verification_failed]"
  by (simp add: unsigned_request_def app_post_orders_create_def express_json_spaced
        orders_create_def webhook_try_def order_of_def body_of_example received_example
        example_secret_truthy verify_missing_header)

subsection \<open>The responses\<close>

text \<open>
  The answers of the handler. It answers 401 exactly when it gets as far as the check,
  with a secret configured, and the check fails. An exception before the check (in
  reading the order or in building its summary) is answered with 200 and the error,
  whatever the signature is. After a check that succeeded or was not made, the answer
  is the one of the delivery, or 200 with the error of an exception.
\<close>

lemma notify_status:
  "notify cfg rt order text = (evs, Inr r) \<Longrightarrow> status r = 200"
  by (auto simp: notify_def Let_def split: prod.splits sum.splits)

lemma orders_create_401_iff:
  "snd (orders_create cfg rt req) = \<lparr>status = 401, json = Unauthorized\<rparr>
   \<longleftrightarrow> (\<exists>order received. order_of rt (req_body req) = Inr order
          \<and> order_received order = Inr received
          \<and> env_truthy (SHOPIFY_WEBHOOK_SECRET cfg)
          \<and> \<not> snd (verifyShopifyWebhook cfg (body_of (req_body req)) (hmacHeader req)))"
proof (cases "order_of rt (req_body req)")
  case (Inl e)
  then show ?thesis by (simp add: orders_create_def webhook_try_def)
next
  case (Inr order)
  show ?thesis
  proof (cases "order_received order")
    case (Inl e)
    with Inr show ?thesis by (simp add: orders_create_def webhook_try_def)
  next
    case r: (Inr received)
    show ?thesis
    proof (cases "env_truthy (SHOPIFY_WEBHOOK_SECRET cfg)
        \<and> \<not> snd (verifyShopifyWebhook cfg (body_of (req_body req)) (hmacHeader req))")
      case True
      with Inr r show ?thesis
        by (auto simp: orders_create_def webhook_try_def split: prod.splits)
    next
      case False
      have "status (snd (orders_create cfg rt req)) = 200"
        using False Inr r
        by (auto simp: orders_create_def webhook_try_def dest: notify_status
              split: prod.splits sum.splits)
      with False show ?thesis by auto
    qed
  qed
qed

lemma orders_create_error_before_check:
  assumes "order_of rt (req_body req) = Inl e
           \<or> (\<exists>order. order_of rt (req_body req) = Inr order \<and> order_received order = Inl e)"
  shows "snd (orders_create cfg rt req)
         = \<lparr>status = 200, json = Error_logged (message_of e) (Date_now rt 1 - Date_now rt 0)\<rparr>"
  using assms by (auto simp: orders_create_def webhook_try_def)

lemma orders_create_after_check:
  assumes "order_of rt (req_body req) = Inr order" and "order_received order = Inr received"
      and "env_truthy (SHOPIFY_WEBHOOK_SECRET cfg) \<longrightarrow>
           snd (verifyShopifyWebhook cfg (body_of (req_body req)) (hmacHeader req))"
  shows "snd (orders_create cfg rt req)
         = (case bind (format_message rt order) (\<lambda>text. snd (notify cfg rt order text)) of
              Inr r \<Rightarrow> r
            | Inl e \<Rightarrow> \<lparr>status = 200,
                         json = Error_logged (message_of e) (Date_now rt 1 - Date_now rt 0)\<rparr>)"
  using assms
  by (auto simp: orders_create_def webhook_try_def split: prod.splits sum.splits)

lemma orders_create_cases:
  "snd (orders_create cfg rt req) = \<lparr>status = 401, json = Unauthorized\<rparr>
   \<or> (\<exists>e. snd (orders_create cfg rt req)
          = \<lparr>status = 200, json = Error_logged (message_of e) (Date_now rt 1 - Date_now rt 0)\<rparr>)
   \<or> (\<exists>n r. snd (orders_create cfg rt req)
          = \<lparr>status = 200, json = Success n (Date_now rt 1 - Date_now rt 0) r\<rparr>)"
  by (auto simp: orders_create_def webhook_try_def notify_def Let_def
        split: sum.splits prod.splits if_splits)

text \<open>
  C4 fails on the code for a malformed payload. A body that is not JSON never reaches
  the handler and its \<^verbatim>\<open>catch\<close> block: the body parser refuses it, and the error
  handler of the application answers 500.
\<close>

theorem malformed_json_answers_500:
  "snd (app_post_orders_create example_config example_runtime truncated_request)
   = \<lparr>status = 500, json = Internal_server_error\<rparr>"
proof -
  have "content_type_json truncated_request"
    "52428800 < int (length (raw_body truncated_request)) = False"
    "decode_body (raw_body truncated_request) = raw_body truncated_request"
    "raw_body truncated_request \<noteq> []"
    "take 1 (skip_ws (raw_body truncated_request)) = ''{''"
    "JSON_parse example_runtime (raw_body truncated_request)
       = Inl (SyntaxError ''Unexpected token in JSON'')"
    by code_simp+
  then show ?thesis by (simp add: app_post_orders_create_def express_json_def)
qed

text \<open>
  C10. A payload with no \<^verbatim>\<open>line_items\<close> member that passes the signature check, or
  is not checked, is answered with 200 and \<^verbatim>\<open>error_logged\<close>; when the summary and the
  customer name can be built, the error is the one of reading \<^verbatim>\<open>slice\<close> from
  \<^verbatim>\<open>undefined\<close>.
\<close>

theorem missing_line_items_error_logged:
  assumes "req_body req = JObj kvs" and "map_of kvs ''line_items'' = None"
      and "\<not> env_truthy (SHOPIFY_WEBHOOK_SECRET cfg)
           \<or> snd (verifyShopifyWebhook cfg (body_of (req_body req)) (hmacHeader req))"
  shows "(\<exists>e. snd (orders_create cfg rt req)
            = \<lparr>status = 200, json = Error_logged (message_of e) (Date_now rt 1 - Date_now rt 0)\<rparr>)
         \<and> (\<forall>ev n. order_received (JObj kvs) = Inr ev \<longrightarrow> customerName (JObj kvs) = Inr n \<longrightarrow>
              snd (orders_create cfg rt req)
                = \<lparr>status = 200,
                   json = Error_logged (''Cannot read properties of undefined (reading '' @ quote
                             @ ''slice'' @ quote @ '')'') (Date_now rt 1 - Date_now rt 0)\<rparr>)"
proof -
  have il: "itemsList (JObj kvs)
      = Inl (TypeError (''Cannot read properties of undefined (reading ''
               @ quote @ ''slice'' @ quote @ '')''))"
    using assms(2) by (simp add: itemsList_def)
  have "\<exists>e. format_message rt (JObj kvs) = Inl e"
    by (cases "customerName (JObj kvs)") (simp_all add: format_message_def il)
  then obtain e where e: "format_message rt (JObj kvs) = Inl e" by blast
  have fm: "format_message rt (JObj kvs)
       = Inl (TypeError (''Cannot read properties of undefined (reading ''
                @ quote @ ''slice'' @ quote @ '')''))"
    if "customerName (JObj kvs) = Inr n" for n
    using that by (simp add: format_message_def il)
  have 1: "\<exists>e. snd (orders_create cfg rt req)
            = \<lparr>status = 200, json = Error_logged (message_of e) (Date_now rt 1 - Date_now rt 0)\<rparr>"
    using assms e
    by (cases "order_received (JObj kvs)")
       (auto simp: orders_create_def webhook_try_def order_of_def split: prod.splits)
  have 2: "snd (orders_create cfg rt req)
                = \<lparr>status = 200,
                   json = Error_logged (''Cannot read properties of undefined (reading '' @ quote
                             @ ''slice'' @ quote @ '')'') (Date_now rt 1 - Date_now rt 0)\<rparr>"
    if "order_received (JObj kvs) = Inr ev" "customerName (JObj kvs) = Inr n" for ev n
    using assms that fm [OF that(2)]
    by (auto simp: orders_create_def webhook_try_def order_of_def message_of_def
          split: prod.splits)
  from 1 2 show ?thesis by blast
qed

theorem missing_line_items_error_logged_witness:
  "req_body no_items_request = JObj [(''order_number'', JNum 1001)]
   \<and> map_of [(''order_number'', JNum 1001)] ''line_items'' = None
   \<and> \<not> env_truthy (SHOPIFY_WEBHOOK_SECRET open_config)
   \<and> snd (orders_create open_config example_runtime no_items_request)
       = \<lparr>status = 200,
          json = Error_logged (''Cannot read properties of undefined (reading '' @ quote
                    @ ''slice'' @ quote @ '')'') 42\<rparr>"
proof -
  have h: "req_body no_items_request = JObj [(''order_number'', JNum 1001)]"
    "map_of [(''order_number'', JNum 1001)] ''line_items'' = None"
    "\<not> env_truthy (SHOPIFY_WEBHOOK_SECRET open_config)
     \<or> snd (verifyShopifyWebhook open_config (body_of (req_body no_items_request))
             (hmacHeader no_items_request))"
    by (simp_all add: no_items_request_def open_config_def example_config_def env_truthy_def)
  have n: "customerName (JObj [(''order_number'', JNum 1001)]) = Inr ''Guest Customer''"
    by code_simp
  have t: "Date_now example_runtime 1 - Date_now example_runtime 0 = 42"
    by (simp add: example_runtime_def)
  from missing_line_items_error_logged [OF h, of example_runtime, THEN conjunct2, rule_format,
      OF received_example n] h(1,2) t
  show ?thesis
    by (simp add: open_config_def example_config_def env_truthy_def)
qed

subsection \<open>The message of an order of the data model\<close>

lemma js_toString_primitive: "is_primitive v \<Longrightarrow> js_toString v = Inr (text_of v)"
  by (cases v) (simp_all add: is_primitive_def text_of_def)

lemma has_primitive_get:
  "has_primitive v k \<Longrightarrow> js_get v k = Inr (field v k)"
  by (auto simp: has_primitive_def field_def split: sum.splits)

lemma has_primitive_field:
  "has_primitive v k \<Longrightarrow> is_primitive (field v k)"
  by (auto simp: has_primitive_def field_def split: sum.splits)

lemma sub_primitive:
  "has_primitive v k \<Longrightarrow>
   bind (js_get v k) (\<lambda>x. bind (js_toString x) g) = g (text_of (field v k))"
  by (simp add: has_primitive_get js_toString_primitive has_primitive_field)

lemma sub_or_else:
  assumes "has_primitive v k"
  shows "bind (or_else (js_get v k) (JStr d)) (\<lambda>x. bind (js_toString x) g)
         = g (or_text (field v k) d)"
proof (cases "truthy (field v k)")
  case True
  with assms show ?thesis
    by (simp add: or_else_def has_primitive_get or_text_def js_toString_primitive
          has_primitive_field)
next
  case False
  with assms show ?thesis
    by (simp add: or_else_def has_primitive_get or_text_def)
qed

lemma render_item_ok:
  "is_line_item item \<Longrightarrow> has_primitive order ''currency'' \<Longrightarrow>
   render_item order item = Inr (line_of order item)"
  by (simp add: render_item_def is_line_item_def sub_primitive line_of_def)

lemma map_items_ok:
  "list_all is_line_item xs \<Longrightarrow> has_primitive order ''currency'' \<Longrightarrow>
   map_items (render_item order) xs = Inr (map (line_of order) xs)"
  by (induction xs) (simp_all add: render_item_ok)

lemma line_items_of_Some:
  "line_items_of order = Some xs \<Longrightarrow> js_get order ''line_items'' = Inr (JArr xs)"
  by (auto simp: line_items_of_def split: sum.splits jsval.splits)

lemma list_all_take: "list_all P xs \<Longrightarrow> list_all P (take n xs)"
  by (auto simp: list_all_iff dest: in_set_takeD)

lemma itemsList_ok:
  assumes "line_items_of order = Some xs" "list_all is_line_item xs" "has_primitive order ''currency''"
  shows "itemsList order = Inr (join nl (map (line_of order) (take 5 xs)))"
  using assms
  by (simp add: itemsList_def line_items_of_Some map_items_ok list_all_take)

lemma get_field_Inr: "js_get v k = Inr x \<Longrightarrow> field v k = x"
  by (simp add: field_def)

lemma customerName_ok:
  assumes "js_get order ''customer'' = Inr c" "truthy c \<Longrightarrow> is_customer c"
  shows "customerName order = Inr (name_text order)"
  using assms
  by (simp add: customerName_def name_text_def get_field_Inr is_customer_def sub_or_else)

lemma shippingAddress_ok:
  assumes "js_get order ''shipping_address'' = Inr a" "truthy a \<Longrightarrow> is_address a"
  shows "shippingAddress order = Inr (address_text order)"
  using assms
  by (simp add: shippingAddress_def address_text_def get_field_Inr is_address_def sub_or_else)

lemma new_Date_primitive: "is_primitive v \<Longrightarrow> \<exists>tv. new_Date rt v = Inr tv"
  by (cases v) (simp_all add: is_primitive_def new_Date_def)

lemma orderTime_ok:
  assumes "has_primitive order ''created_at''"
  shows "orderTime rt order = Inr (time_text rt order)"
proof -
  obtain tv where "new_Date rt (field order ''created_at'') = Inr tv"
    using new_Date_primitive has_primitive_field [OF assms] by blast
  then show ?thesis
    using assms by (simp add: orderTime_def time_text_def has_primitive_get)
qed

lemma more_items_ok:
  "line_items_of order = Some xs \<Longrightarrow>
   more_items order = Inr (JStr (if 5 < length xs then nl @ ''... and more items'' else []))"
  by (simp add: more_items_def line_items_of_Some js_gt_def)

lemma is_orderD:
  assumes "is_order order"
  shows "has_primitive order ''order_number''" "has_primitive order ''currency''"
    "has_primitive order ''total_price''" "has_primitive order ''created_at''"
    "has_primitive order ''email''" "has_primitive order ''phone''"
    "\<exists>c. js_get order ''customer'' = Inr c \<and> (truthy c \<longrightarrow> is_customer c)"
    "\<exists>a. js_get order ''shipping_address'' = Inr a \<and> (truthy a \<longrightarrow> is_address a)"
    "\<exists>xs. line_items_of order = Some xs \<and> list_all is_line_item xs"
  using assms by (auto simp: is_order_def split: sum.splits option.splits if_splits)

lemma message_ok:
  assumes "is_order order" "line_items_of order = Some xs"
  shows "message order cn il sa ot
         = Inr (shopping_bags @ '' NEW ORDER ALERT!'' @ nl @ nl
     @ emoji 0x938B @ '' Order #'' @ text_of (field order ''order_number'') @ nl
     @ emoji 0x91A4 @ '' Customer: '' @ cn @ nl
     @ emoji 0x93A7 @ '' Email: '' @ or_text (field order ''email'') ''N/A'' @ nl
     @ emoji 0x93B1 @ '' Phone: '' @ or_text (field order ''phone'') ''N/A'' @ nl @ nl
     @ emoji 0x92B0 @ '' Total Amount: '' @ text_of (field order ''currency'') @ '' ''
     @ text_of (field order ''total_price'') @ nl
     @ emoji 0x93A6 @ '' Total Items: '' @ show_int (int (length xs)) @ nl @ nl
     @ emoji 0x9B92 @ '' Items Ordered:'' @ nl
     @ il @ (if 5 < length xs then nl @ ''... and more items'' else [])
     @ nl @ nl @ emoji 0x938D @ '' Shipping Address:'' @ nl @ sa @ nl @ nl
     @ emoji 0x9592 @ '' Order Time: '' @ ot @ nl
     @ emoji 0x8FAA @ '' Store: AD Plants Shop'' @ nl @ nl
     @ ''---'' @ nl @ ''Powered by AD Plants Webhook System'')"
  using is_orderD(1-6) [OF assms(1)] assms(2)
  by (simp add: message_def sub_primitive sub_or_else more_items_ok line_items_of_Some)

lemma format_message_ok:
  assumes "is_order order" "line_items_of order = Some xs"
  shows "format_message rt order
         = Inr (message_head order (length xs) @ items_text order xs @ message_tail rt order)"
proof -
  from is_orderD(7) [OF assms(1)] obtain c where
    c: "js_get order ''customer'' = Inr c" "truthy c \<Longrightarrow> is_customer c" by blast
  from is_orderD(8) [OF assms(1)] obtain a where
    a: "js_get order ''shipping_address'' = Inr a" "truthy a \<Longrightarrow> is_address a" by blast
  from is_orderD(9) [OF assms(1)] assms(2) have xs: "list_all is_line_item xs" by simp
  show ?thesis
    by (simp add: format_message_def customerName_ok [OF c] shippingAddress_ok [OF a]
          itemsList_ok [OF assms(2) xs is_orderD(2) [OF assms(1)]]
          orderTime_ok [OF is_orderD(4) [OF assms(1)]] message_ok [OF assms]
          message_head_def items_text_def message_tail_def)
qed

lemma absent_field: "absent order k \<Longrightarrow> \<not> truthy (field order k)"
  by (auto simp: absent_def field_def)

text \<open>
  C6. For an order of the data model without customer, email, phone and shipping
  address (each missing or \<^verbatim>\<open>null\<close>) the message is built, and it has the lines of the
  customer, the email and the phone with \<^verbatim>\<open>Guest Customer\<close>, \<^verbatim>\<open>N/A\<close> and \<^verbatim>\<open>N/A\<close>.
\<close>

theorem format_without_optional_fields:
  assumes "is_order order" and "absent order ''customer''" and "absent order ''email''"
      and "absent order ''phone''" and "absent order ''shipping_address''"
  shows "\<exists>pre post. format_message rt order
           = Inr (pre @ emoji 0x91A4 @ '' Customer: Guest Customer'' @ nl
                  @ emoji 0x93A7 @ '' Email: N/A'' @ nl
                  @ emoji 0x93B1 @ '' Phone: N/A'' @ nl @ post)"
proof -
  from is_orderD(9) [OF assms(1)] obtain xs where xs: "line_items_of order = Some xs" by blast
  have "name_text order = ''Guest Customer''"
    using absent_field [OF assms(2)] by (simp add: name_text_def)
  moreover have "or_text (field order ''email'') ''N/A'' = ''N/A''"
    using absent_field [OF assms(3)] by (simp add: or_text_def)
  moreover have "or_text (field order ''phone'') ''N/A'' = ''N/A''"
    using absent_field [OF assms(4)] by (simp add: or_text_def)
  ultimately have "format_message rt order
      = Inr ((shopping_bags @ '' NEW ORDER ALERT!'' @ nl @ nl
               @ emoji 0x938B @ '' Order #'' @ text_of (field order ''order_number'') @ nl)
             @ emoji 0x91A4 @ '' Customer: Guest Customer'' @ nl
             @ emoji 0x93A7 @ '' Email: N/A'' @ nl
             @ emoji 0x93B1 @ '' Phone: N/A'' @ nl
             @ (nl @ emoji 0x92B0 @ '' Total Amount: '' @ text_of (field order ''currency'') @ '' ''
                @ text_of (field order ''total_price'') @ nl
                @ emoji 0x93A6 @ '' Total Items: '' @ show_int (int (length xs)) @ nl @ nl
                @ emoji 0x9B92 @ '' Items Ordered:'' @ nl
                @ items_text order xs @ message_tail rt order))"
    by (simp add: format_message_ok [OF assms(1) xs] message_head_def)
  then show ?thesis by blast
qed

theorem format_without_optional_fields_witness:
  "is_order (example_order [example_item ''Fern''])
   \<and> absent (example_order [example_item ''Fern'']) ''customer''
   \<and> absent (example_order [example_item ''Fern'']) ''email''
   \<and> absent (example_order [example_item ''Fern'']) ''phone''
   \<and> absent (example_order [example_item ''Fern'']) ''shipping_address''
   \<and> (\<exists>pre post. format_message example_runtime (example_order [example_item ''Fern''])
           = Inr (pre @ emoji 0x91A4 @ '' Customer: Guest Customer'' @ nl
                  @ emoji 0x93A7 @ '' Email: N/A'' @ nl
                  @ emoji 0x93B1 @ '' Phone: N/A'' @ nl @ post))"
proof -
  have h: "is_order (example_order [example_item ''Fern''])"
    "absent (example_order [example_item ''Fern'']) ''customer''"
    "absent (example_order [example_item ''Fern'']) ''email''"
    "absent (example_order [example_item ''Fern'']) ''phone''"
    "absent (example_order [example_item ''Fern'']) ''shipping_address''"
    by code_simp+
  from format_without_optional_fields [OF h, of example_runtime] h show ?thesis by blast
qed

lemma render_item_cong:
  "js_get order' ''currency'' = js_get order ''currency'' \<Longrightarrow> render_item order' = render_item order"
  by (rule ext) (simp add: render_item_def)

lemma format_message_cong:
  assumes "line_items_of order = Some xs" and "line_items_of order' = Some xs'"
      and "take 5 xs' = take 5 xs" and "length xs' = length xs"
      and "\<forall>k. k \<noteq> ''line_items'' \<longrightarrow> js_get order' k = js_get order k"
  shows "format_message rt order' = format_message rt order"
proof -
  have k: "js_get order' k = js_get order k" if "k \<noteq> ''line_items''" for k
    using assms(5) that by blast
  have cn: "customerName order' = customerName order"
    by (simp add: customerName_def k)
  have sa: "shippingAddress order' = shippingAddress order"
    by (simp add: shippingAddress_def k)
  have ot: "orderTime rt order' = orderTime rt order"
    by (simp add: orderTime_def k)
  have il: "itemsList order' = itemsList order"
    using assms(3)
    by (simp add: itemsList_def line_items_of_Some [OF assms(1)] line_items_of_Some [OF assms(2)]
          render_item_cong [of order' order] k)
  have ms: "message order' a b c d = message order a b c d" for a b c d
    using assms(4)
    by (simp add: message_def more_items_def line_items_of_Some [OF assms(1)]
          line_items_of_Some [OF assms(2)] k)
  show ?thesis
    by (simp add: format_message_def cn sa ot il ms)
qed

text \<open>
  C7, as the code has it. For an order of the data model the section of the items is
  made of the lines of the first five items, in their order, each with the title of its
  item, and of the notice when there are more than five; for no items it is empty, and
  the message is built. The items after the fifth are not rendered: with others in
  their place, as many of them, the message is the same.
\<close>

theorem first_five_items_rendered:
  assumes "is_order order" and "line_items_of order = Some xs"
  shows "(\<exists>pre post. format_message rt order
            = Inr (pre @ '' Items Ordered:'' @ nl
                   @ join nl (map (line_of order) (take 5 xs))
                   @ (if 5 < length xs then nl @ ''... and more items'' else [])
                   @ nl @ nl @ emoji 0x938D @ '' Shipping Address:'' @ post))
         \<and> (\<forall>order' xs'. line_items_of order' = Some xs' \<longrightarrow> take 5 xs' = take 5 xs \<longrightarrow>
               length xs' = length xs \<longrightarrow>
               (\<forall>k. k \<noteq> ''line_items'' \<longrightarrow> js_get order' k = js_get order k) \<longrightarrow>
               format_message rt order' = format_message rt order)"
proof -
  let ?pre = "shopping_bags @ '' NEW ORDER ALERT!'' @ nl @ nl
     @ emoji 0x938B @ '' Order #'' @ text_of (field order ''order_number'') @ nl
     @ emoji 0x91A4 @ '' Customer: '' @ name_text order @ nl
     @ emoji 0x93A7 @ '' Email: '' @ or_text (field order ''email'') ''N/A'' @ nl
     @ emoji 0x93B1 @ '' Phone: '' @ or_text (field order ''phone'') ''N/A'' @ nl @ nl
     @ emoji 0x92B0 @ '' Total Amount: '' @ text_of (field order ''currency'') @ '' ''
     @ text_of (field order ''total_price'') @ nl
     @ emoji 0x93A6 @ '' Total Items: '' @ show_int (int (length xs)) @ nl @ nl
     @ emoji 0x9B92"
  let ?post = "nl @ address_text order @ nl @ nl
     @ emoji 0x9592 @ '' Order Time: '' @ time_text rt order @ nl
     @ emoji 0x8FAA @ '' Store: AD Plants Shop'' @ nl @ nl
     @ ''---'' @ nl @ ''Powered by AD Plants Webhook System''"
  have "format_message rt order
            = Inr (?pre @ '' Items Ordered:'' @ nl
                   @ join nl (map (line_of order) (take 5 xs))
                   @ (if 5 < length xs then nl @ ''... and more items'' else [])
                   @ nl @ nl @ emoji 0x938D @ '' Shipping Address:'' @ ?post)"
    by (simp add: format_message_ok [OF assms] message_head_def items_text_def message_tail_def)
  then have "\<exists>pre post. format_message rt order
            = Inr (pre @ '' Items Ordered:'' @ nl
                   @ join nl (map (line_of order) (take 5 xs))
                   @ (if 5 < length xs then nl @ ''... and more items'' else [])
                   @ nl @ nl @ emoji 0x938D @ '' Shipping Address:'' @ post)"
    by blast
  then show ?thesis
    using format_message_cong [OF assms(2)] by blast
qed

theorem first_five_items_rendered_witness:
  "is_order (example_order seven_items)
   \<and> line_items_of (example_order seven_items) = Some seven_items
   \<and> (\<exists>pre post. format_message example_runtime (example_order seven_items)
            = Inr (pre @ '' Items Ordered:'' @ nl
                   @ join nl (map (line_of (example_order seven_items)) (take 5 seven_items))
                   @ nl @ ''... and more items''
                   @ nl @ nl @ emoji 0x938D @ '' Shipping Address:'' @ post))
   \<and> format_message example_runtime (example_order seven_items_changed)
       = format_message example_runtime (example_order seven_items)"
proof -
  have h: "is_order (example_order seven_items)"
    "line_items_of (example_order seven_items) = Some seven_items"
    by code_simp+
  have c: "line_items_of (example_order seven_items_changed) = Some seven_items_changed"
    "take 5 seven_items_changed = take 5 seven_items"
    "length seven_items_changed = length seven_items"
    by code_simp+
  have k: "\<forall>k. k \<noteq> ''line_items'' \<longrightarrow>
             js_get (example_order seven_items_changed) k = js_get (example_order seven_items) k"
    by (simp add: example_order_def)
  have l: "5 < length seven_items" by (simp add: seven_items_def)
  note t = first_five_items_rendered [OF h, of example_runtime]
  from t [THEN conjunct1] l
  have a: "\<exists>pre post. format_message example_runtime (example_order seven_items)
            = Inr (pre @ '' Items Ordered:'' @ nl
                   @ join nl (map (line_of (example_order seven_items)) (take 5 seven_items))
                   @ nl @ ''... and more items''
                   @ nl @ nl @ emoji 0x938D @ '' Shipping Address:'' @ post)"
    by (simp only: if_True append_assoc)
  from t [THEN conjunct2, rule_format, OF c k [rule_format]]
  have b: "format_message example_runtime (example_order seven_items_changed)
       = format_message example_runtime (example_order seven_items)" .
  from h a b show ?thesis by (intro conjI)
qed

text \<open>
  C7 as stated fails: the sixth item of \<open>six_items\<close> has the title of the first, and
  the message contains this title.
\<close>

theorem sixth_title_in_message:
  "(case format_message example_runtime (example_order six_items) of
      Inr text \<Rightarrow> sublist ''Fern'' text
    | Inl e \<Rightarrow> False)
   \<and> six_items ! 5 = example_item ''Fern''"
  by code_simp

subsection \<open>The order time\<close>

lemma year_length_bounds: "365 \<le> year_length y" "year_length y \<le> 366"
  by (simp_all add: year_length_def)

lemma year_of_bounds:
  "0 \<le> d \<Longrightarrow> d div 365 < int k \<Longrightarrow> year_of k y d = (y', d') \<Longrightarrow>
   y \<le> y' \<and> 0 \<le> d' \<and> d' < year_length y'"
proof (induction k arbitrary: y d)
  case 0
  then show ?case by simp
next
  case (Suc k)
  show ?case
  proof (cases "d < year_length y")
    case True
    with Suc.prems show ?thesis by simp
  next
    case False
    have l: "365 \<le> year_length y" by (rule year_length_bounds)
    from Suc.prems(2) have "d < 365 * (int k + 1)" by simp
    with l have dv: "(d - year_length y) div 365 < int k" by simp
    have "0 \<le> d - year_length y" using False by simp
    moreover note dv
    moreover have "year_of k (y + 1) (d - year_length y) = (y', d')"
      using Suc.prems False by simp
    ultimately have "y + 1 \<le> y' \<and> 0 \<le> d' \<and> d' < year_length y'"
      by (rule Suc.IH)
    then show ?thesis by simp
  qed
qed

lemma year_of_bounds_before:
  "d < 0 \<Longrightarrow> (- d) div 365 + 2 \<le> int k \<Longrightarrow> year_of k y d = (y', d') \<Longrightarrow>
   y' < y \<and> 0 \<le> d' \<and> d' < year_length y'"
proof (induction k arbitrary: y d)
  case 0
  then show ?case by simp
next
  case (Suc k)
  let ?d = "d + year_length (y - 1)"
  have l: "365 \<le> year_length (y - 1)" by (rule year_length_bounds)
  have step: "year_of k (y - 1) ?d = (y', d')"
    using Suc.prems by simp
  show ?case
  proof (cases "?d < 0")
    case True
    have "- ?d + 365 \<le> - d" using l by simp
    then have "(- ?d + 365) div 365 \<le> (- d) div 365" by (rule zdiv_mono1) simp
    then have "(- ?d) div 365 + 2 \<le> int k" using Suc.prems(2) by simp
    from Suc.IH [OF True this step] show ?thesis by simp
  next
    case False
    have "0 \<le> (- d) div 365" using Suc.prems(1) by simp
    with Suc.prems(2) obtain j where k: "k = Suc j" by (cases k) simp_all
    have lt: "?d < year_length (y - 1)" using Suc.prems(1) by simp
    have "year_of k (y - 1) ?d = (y - 1, ?d)" using k False lt by simp
    with step have "y' = y - 1" "d' = ?d" by auto
    with False lt show ?thesis by simp
  qed
qed

lemma month_of_bounds:
  "0 \<le> d \<Longrightarrow> d < sum_list ls \<Longrightarrow> \<forall>l \<in> set ls. l \<le> 31 \<Longrightarrow> month_of ls m d = (m', d') \<Longrightarrow>
   m \<le> m' \<and> m' < m + int (length ls) \<and> 1 \<le> d' \<and> d' \<le> 31"
proof (induction ls arbitrary: m d)
  case Nil
  then show ?case by simp
next
  case (Cons l ls)
  show ?case
  proof (cases "d < l")
    case True
    with Cons.prems show ?thesis by auto
  next
    case False
    with Cons.prems have "month_of ls (m + 1) (d - l) = (m', d')" "0 \<le> d - l"
      "d - l < sum_list ls" "\<forall>l \<in> set ls. l \<le> 31"
      by auto
    from Cons.IH [OF this(2,3,4,1)] show ?thesis by simp
  qed
qed

lemma sum_month_lengths: "sum_list (month_lengths y) = year_length y"
  by (simp add: month_lengths_def year_length_def)

lemma civil_from_days_bounds:
  assumes "civil_from_days n = (Y, M, D)"
  shows "1 \<le> M \<and> M \<le> 12 \<and> 1 \<le> D \<and> D \<le> 31"
proof -
  obtain y doy where yo: "year_of (nat (\<bar>n\<bar> div 365) + 2) 1970 n = (y, doy)"
    by (cases "year_of (nat (\<bar>n\<bar> div 365) + 2) 1970 n") blast
  obtain m d where mo: "month_of (month_lengths y) 1 doy = (m, d)"
    by (cases "month_of (month_lengths y) 1 doy") blast
  from assms yo mo have eq: "Y = y" "M = m" "D = d"
    by (simp_all add: civil_from_days_def)
  have y: "0 \<le> doy \<and> doy < year_length y"
  proof (cases "0 \<le> n")
    case True
    then have "n div 365 < int (nat (\<bar>n\<bar> div 365) + 2)" by simp
    from year_of_bounds [OF True this yo] show ?thesis by simp
  next
    case False
    then have n: "n < 0" by simp
    then have "(- n) div 365 + 2 \<le> int (nat (\<bar>n\<bar> div 365) + 2)" by simp
    from year_of_bounds_before [OF n this yo] show ?thesis by simp
  qed
  have "\<forall>l \<in> set (month_lengths y). l \<le> 31" by (simp add: month_lengths_def)
  from month_of_bounds [OF _ _ this mo] y
  have "1 \<le> m \<and> m < 1 + int (length (month_lengths y)) \<and> 1 \<le> d \<and> d \<le> 31"
    by (simp add: sum_month_lengths)
  then show ?thesis using eq by (simp add: month_lengths_def)
qed

lemma show_pos_four: "1000 \<le> n \<Longrightarrow> n \<le> 9999 \<Longrightarrow> length (show_pos n) = 4"
proof -
  assume a: "1000 \<le> n" "n \<le> 9999"
  have 1: "show_pos n = show_pos (n div 10) @ [char_of (48 + n mod 10)]"
    using a by (subst show_pos.simps) simp
  have 2: "show_pos (n div 10) = show_pos (n div 10 div 10) @ [char_of (48 + n div 10 mod 10)]"
    using a by (subst show_pos.simps) simp
  have 3: "show_pos (n div 10 div 10) = show_pos (n div 10 div 10 div 10) @ [char_of (48 + n div 10 div 10 mod 10)]"
    using a by (subst show_pos.simps) simp
  have 4: "show_pos (n div 10 div 10 div 10) = [char_of (48 + n div 10 div 10 div 10)]"
    using a by (subst show_pos.simps) simp
  show ?thesis by (simp only: 1 2 3 4 length_append list.size)
qed

lemma year_text_four: "1000 \<le> y \<Longrightarrow> y \<le> 9999 \<Longrightarrow> length (year_text y) = 4"
  using show_pos_four [of y] by (simp add: year_text_def show_int_def del: show_pos.simps)

lemma hour12_bounds:
  "1 \<le> (if h mod 12 = 0 then 12 else h mod 12)"
  "(if h mod 12 = 0 then 12 else h mod 12) \<le> 12"
  "(if h mod 12 = 0 then 12 else h mod 12) mod 12 = h mod 12" for h :: int
proof -
  have "0 \<le> h mod 12" "h mod 12 < 12" by simp_all
  then have "h mod 12 \<noteq> 0 \<Longrightarrow> 1 \<le> h mod 12" "h mod 12 \<le> 12" by linarith+
  then show "1 \<le> (if h mod 12 = 0 then 12 else h mod 12)"
    "(if h mod 12 = 0 then 12 else h mod 12) \<le> 12"
    "(if h mod 12 = 0 then 12 else h mod 12) mod 12 = h mod 12"
    by simp_all
qed

lemma hour_of_day_bounds: "0 \<le> hour_of_day l" "hour_of_day l \<le> 23"
proof -
  have "0 \<le> l mod 86400000" "l mod 86400000 < 86400000" by simp_all
  then show "0 \<le> hour_of_day l" "hour_of_day l \<le> 23"
    unfolding hour_of_day_def by simp_all
qed

lemma minute_of_hour_bounds: "0 \<le> minute_of_hour l" "minute_of_hour l \<le> 59"
  by (simp_all add: minute_of_hour_def)

lemma local_time_now: "- 764145000000 \<le> t \<Longrightarrow> local_time t = t + 19800000"
  by (simp add: local_time_def Asia_Kolkata_def)

text \<open>Some instants and what is shown of them: the one of the examples, the epoch, the
  last minute of 1969, a leap day, the last minute of a day, an instant of 1944 (the
  zone at +06:30), one of June 1942 (at +05:30) and one of 1900 (at +05:21:10), and
  the invalid date.\<close>

lemma order_time_examples:
  "toLocaleString example_runtime (Some 1705314600000) = ''15/01/2024, 04:00 pm''"
  "toLocaleString example_runtime (Some 0) = ''01/01/1970, 05:30 am''"
  "toLocaleString example_runtime (Some (- 19860000)) = ''31/12/1969, 11:59 pm''"
  "toLocaleString example_runtime (Some 951782400000) = ''29/02/2000, 05:30 am''"
  "toLocaleString example_runtime (Some 1719858599000) = ''01/07/2024, 11:59 pm''"
  "toLocaleString example_runtime (Some (- 800000000000)) = ''26/08/1944, 12:16 am''"
  "toLocaleString example_runtime (Some (- 870000000000)) = ''07/06/1942, 06:50 pm''"
  "toLocaleString example_runtime (Some (- 2208988800000)) = ''01/01/1900, 05:21 am''"
  "toLocaleString example_runtime None = ''Invalid Date''"
  by code_simp+

text \<open>
  C9, as the code has it. For an order of the data model whose \<^verbatim>\<open>created_at\<close> is a
  valid timestamp, the message has the line of the order time, and what it shows is the
  local time of the zone \<^verbatim>\<open>Asia/Kolkata\<close> (five and a half hours ahead of UTC for every
  instant since October 1945) in the form \<^verbatim>\<open>DD/MM/YYYY, hh:mm\<close>, a space and \<^verbatim>\<open>am\<close> or
  \<^verbatim>\<open>pm\<close>: day, month, hour and minute in two digits, the year in full (four digits
  from 1000 to 9999), and the hour on the 12-hour clock, from 1 to 12.
\<close>

theorem order_time_rendering:
  assumes "is_order order" and "new_Date rt (field order ''created_at'') = Inr (Some t)"
  shows "\<exists>Y M D h pre.
           format_message rt order
             = Inr (pre @ emoji 0x9592 @ '' Order Time: ''
                    @ two_digit D @ ''/'' @ two_digit M @ ''/'' @ year_text Y @ '', ''
                    @ two_digit h @ '':'' @ two_digit (minute_of_hour (local_time t))
                    @ space_text (day_period_space rt)
                    @ (if 12 \<le> hour_of_day (local_time t) then ''pm'' else ''am'') @ nl
                    @ emoji 0x8FAA @ '' Store: AD Plants Shop'' @ nl @ nl
                    @ ''---'' @ nl @ ''Powered by AD Plants Webhook System'')
           \<and> civil_from_days (local_time t div 86400000) = (Y, M, D)
           \<and> 1 \<le> D \<and> D \<le> 31 \<and> 1 \<le> M \<and> M \<le> 12
           \<and> (1000 \<le> Y \<and> Y \<le> 9999 \<longrightarrow> length (year_text Y) = 4)
           \<and> 1 \<le> h \<and> h \<le> 12 \<and> h mod 12 = hour_of_day (local_time t) mod 12
           \<and> 0 \<le> hour_of_day (local_time t) \<and> hour_of_day (local_time t) \<le> 23
           \<and> 0 \<le> minute_of_hour (local_time t) \<and> minute_of_hour (local_time t) \<le> 59
           \<and> (space_text (day_period_space rt) = '' ''
                \<or> space_text (day_period_space rt) = [CHR 0xE2, CHR 0x80, CHR 0xAF])
           \<and> (- 764145000000 \<le> t \<longrightarrow> local_time t = t + 19800000)"
proof -
  let ?H = "hour_of_day (local_time t)"
  let ?h = "if ?H mod 12 = 0 then 12 else ?H mod 12"
  obtain Y M D where c: "civil_from_days (local_time t div 86400000) = (Y, M, D)"
    by (cases "civil_from_days (local_time t div 86400000)") blast
  from is_orderD(9) [OF assms(1)] obtain xs where xs: "line_items_of order = Some xs" by blast
  have tt: "time_text rt order
      = two_digit D @ ''/'' @ two_digit M @ ''/'' @ year_text Y @ '', ''
        @ two_digit ?h @ '':'' @ two_digit (minute_of_hour (local_time t))
        @ space_text (day_period_space rt) @ (if 12 \<le> ?H then ''pm'' else ''am'')"
    using assms(2) c by (simp add: time_text_def toLocaleString_def Let_def)
  let ?pre = "message_head order (length xs) @ items_text order xs
     @ nl @ nl @ emoji 0x938D @ '' Shipping Address:'' @ nl @ address_text order @ nl @ nl"
  have fm: "format_message rt order
             = Inr (?pre @ emoji 0x9592 @ '' Order Time: ''
                    @ two_digit D @ ''/'' @ two_digit M @ ''/'' @ year_text Y @ '', ''
                    @ two_digit ?h @ '':'' @ two_digit (minute_of_hour (local_time t))
                    @ space_text (day_period_space rt)
                    @ (if 12 \<le> ?H then ''pm'' else ''am'') @ nl
                    @ emoji 0x8FAA @ '' Store: AD Plants Shop'' @ nl @ nl
                    @ ''---'' @ nl @ ''Powered by AD Plants Webhook System'')"
    unfolding format_message_ok [OF assms(1) xs] message_tail_def tt by simp
  have y: "1000 \<le> Y \<and> Y \<le> 9999 \<longrightarrow> length (year_text Y) = 4"
    using year_text_four by blast
  have z: "- 764145000000 \<le> t \<longrightarrow> local_time t = t + 19800000"
    using local_time_now by blast
  have sp: "space_text (day_period_space rt) = '' ''
            \<or> space_text (day_period_space rt) = [CHR 0xE2, CHR 0x80, CHR 0xAF]"
    by (cases "day_period_space rt") (simp_all add: space_text_def)
  from fm c civil_from_days_bounds [OF c] y z sp hour12_bounds [of ?H]
    hour_of_day_bounds [of "local_time t"] minute_of_hour_bounds [of "local_time t"]
  show ?thesis by blast
qed

theorem order_time_rendering_witness:
  "is_order (example_order [])
   \<and> new_Date example_runtime (field (example_order []) ''created_at'')
       = Inr (Some 1705314600000)
   \<and> (\<exists>pre. format_message example_runtime (example_order [])
         = Inr (pre @ emoji 0x9592 @ '' Order Time: 15/01/2024, 04:00 pm'' @ nl
                @ emoji 0x8FAA @ '' Store: AD Plants Shop'' @ nl @ nl
                @ ''---'' @ nl @ ''Powered by AD Plants Webhook System''))
   \<and> civil_from_days (local_time 1705314600000 div 86400000) = (2024, 1, 15)
   \<and> length (year_text 2024) = 4
   \<and> hour_of_day (local_time 1705314600000) = 16
   \<and> - 764145000000 \<le> (1705314600000 :: int)
   \<and> local_time 1705314600000 = 1705314600000 + 19800000"
proof -
  have h: "is_order (example_order [])"
    "new_Date example_runtime (field (example_order []) ''created_at'')
       = Inr (Some 1705314600000)"
    by code_simp+
  have c: "civil_from_days (local_time 1705314600000 div 86400000) = (2024, 1, 15)"
    by code_simp
  have e: "hour_of_day (local_time 1705314600000) = 16"
    "minute_of_hour (local_time 1705314600000) = 0"
    "space_text (day_period_space example_runtime) = '' ''"
    by code_simp+
  have d: "two_digit 15 = ''15''" "two_digit 1 = ''01''" "year_text 2024 = ''2024''"
    "two_digit 4 = ''04''" "two_digit 0 = ''00''"
    by code_simp+
  from order_time_rendering [OF h] obtain Y M D hh pre where
    r: "format_message example_runtime (example_order [])
          = Inr (pre @ emoji 0x9592 @ '' Order Time: ''
                 @ two_digit D @ ''/'' @ two_digit M @ ''/'' @ year_text Y @ '', ''
                 @ two_digit hh @ '':'' @ two_digit (minute_of_hour (local_time 1705314600000))
                 @ space_text (day_period_space example_runtime)
                 @ (if 12 \<le> hour_of_day (local_time 1705314600000) then ''pm'' else ''am'') @ nl
                 @ emoji 0x8FAA @ '' Store: AD Plants Shop'' @ nl @ nl
                 @ ''---'' @ nl @ ''Powered by AD Plants Webhook System'')"
    and ymd: "civil_from_days (local_time 1705314600000 div 86400000) = (Y, M, D)"
    and y4: "1000 \<le> Y \<and> Y \<le> 9999 \<longrightarrow> length (year_text Y) = 4"
    and hb: "1 \<le> hh" "hh \<le> 12" "hh mod 12 = hour_of_day (local_time 1705314600000) mod 12"
    and z: "- 764145000000 \<le> (1705314600000 :: int)
            \<longrightarrow> local_time 1705314600000 = 1705314600000 + 19800000"
    by blast
  from ymd c have v: "Y = 2024" "M = 1" "D = 15" by simp_all
  from hb e(1) have hh: "hh = 4" by presburger
  from r have "format_message example_runtime (example_order [])
         = Inr (pre @ emoji 0x9592 @ '' Order Time: 15/01/2024, 04:00 pm'' @ nl
                @ emoji 0x8FAA @ '' Store: AD Plants Shop'' @ nl @ nl
                @ ''---'' @ nl @ ''Powered by AD Plants Webhook System'')"
    by (simp add: v hh e d)
  moreover from y4 v have "length (year_text 2024) = 4" by simp
  moreover from z have "local_time 1705314600000 = 1705314600000 + 19800000" by simp
  ultimately show ?thesis using h c e(1) by simp
qed

text \<open>
  C9 as stated fails: four in the afternoon is rendered as \<^verbatim>\<open>04:00 pm\<close>, after a
  comma, and not as \<^verbatim>\<open>16:00\<close>; the message has no \<^verbatim>\<open>15/01/2024 16:00\<close>, with
  either kind of space before the day period.
\<close>

theorem order_time_is_12_hour:
  "is_order (example_order [])
   \<and> new_Date example_runtime (field (example_order []) ''created_at'')
       = Inr (Some 1705314600000)
   \<and> order_time_24h 1705314600000 = ''15/01/2024 16:00''
   \<and> orderTime example_runtime (example_order []) = Inr ''15/01/2024, 04:00 pm''
   \<and> (case format_message example_runtime (example_order []) of
         Inr text \<Rightarrow> sublist ''Order Time: 15/01/2024, 04:00 pm'' text
                      \<and> \<not> sublist ''15/01/2024 16:00'' text
       | Inl e \<Rightarrow> False)
   \<and> (case format_message newer_runtime (example_order []) of
         Inr text \<Rightarrow> \<not> sublist ''15/01/2024 16:00'' text
       | Inl e \<Rightarrow> False)"
  by code_simp

end
